theory Spec2Isabelle
  imports Complex_Main "HOL-Library.Multiset"
begin


section \<open>Conventions of the embedding\<close>

text \<open>
  The program is \<^verbatim>\<open>src/skeleton.py\<close>. Its values are modelled as follows.

  \<^item> A Python \<^verbatim>\<open>str\<close> is a \<open>string\<close>. \<^verbatim>\<open>str.lower\<close> is modelled on ASCII: the
    letters \<open>A\<close> to \<open>Z\<close> are mapped to \<open>a\<close> to \<open>z\<close>, every other character is kept.
  \<^item> A Python \<^verbatim>\<open>float\<close> is a \<open>real\<close>: the value of the float. Where the result
    of the program depends on the rounding of binary floating point, in
    \<^verbatim>\<open>find_puppeteers\<close> and in the proportions of \<^verbatim>\<open>get_collective_map\<close>, every
    operation is followed by \<open>double\<close>, the rounding to the nearest binary64 value.
    The scores of the detectors, the entropy and the awareness scores are kept in exact
    arithmetic: the keys that the detectors compare are quotients \<open>m / n\<close> of a count by
    a table size of at most 17, which floating point orders as exact arithmetic does.
  \<^item> A \<^verbatim>\<open>dict\<close> whose iteration order matters is an association list in insertion
    order; a \<^verbatim>\<open>defaultdict\<close> that is only read with a default is a total function.
  \<^item> \<^verbatim>\<open>uuid.uuid4()\<close> and \<^verbatim>\<open>datetime.now()\<close> read the environment. The
    environment is the record \<open>world\<close>: the sequence of 128-bit numbers the generator
    will yield, the sequence of clock readings, and how many of each have been consumed.
    Every function that creates an object with a generated id or timestamp takes the
    world and returns the advanced one.
  \<^item> The static descriptive texts that a detector copies from the table entry of the
    finding's type (\<^verbatim>\<open>reveals\<close>, \<^verbatim>\<open>question\<close>, \<^verbatim>\<open>antidote\<close>, \<^verbatim>\<open>behind_the_mask\<close>, ...)
    and the name derived from the type are functions of the type tag alone; the finding
    records keep the type tag, the generated id and timestamp, the fields built from the
    matched keywords, and the scores.
\<close>

section \<open>Strings\<close>

definition lower_char :: "char \<Rightarrow> char" where
  "lower_char c =
     (let n = (of_char c :: nat) in if 65 \<le> n \<and> n \<le> 90 then char_of (n + 32) else c)"

definition lower :: "string \<Rightarrow> string" where
  "lower s = map lower_char s"

fun startswith :: "string \<Rightarrow> string \<Rightarrow> bool" where
  "startswith t [] = True"
| "startswith [] (c # s) = False"
| "startswith (x # t) (c # s) = (x = c \<and> startswith t s)"

text \<open>\<open>substring_in s t\<close> is Python's \<^verbatim>\<open>s in t\<close> on strings.\<close>

fun substring_in :: "string \<Rightarrow> string \<Rightarrow> bool" where
  "substring_in s [] = (s = [])"
| "substring_in s (x # t) = (startswith (x # t) s \<or> substring_in s t)"

text \<open>\<open>join sep xs\<close> is Python's \<^verbatim>\<open>sep.join(xs)\<close>.\<close>

fun join :: "string \<Rightarrow> string list \<Rightarrow> string" where
  "join sep [] = []"
| "join sep [x] = x"
| "join sep (x # y # ys) = x @ sep @ join sep (y # ys)"

section \<open>Numbers\<close>

text \<open>Rounding half to even to an integer, and to a decimal with three places.\<close>

definition round_half_even :: "real \<Rightarrow> int" where
  "round_half_even x =
     (let f = \<lfloor>x\<rfloor>; d = x - of_int f
      in if d < 1/2 then f else if 1/2 < d then f + 1 else if even f then f else f + 1)"

definition round3 :: "real \<Rightarrow> real" where
  "round3 x = of_int (round_half_even (x * 1000)) / 1000"

text \<open>
  Binary floating point. \<open>pow2 k\<close> is \<open>2\<^sup>k\<close> for an integer \<open>k\<close>. \<open>double x\<close> is the
  binary64 value nearest to \<open>x\<close>, ties to the even significand: 53 significant bits,
  and below \<open>2\<^sup>-\<^sup>1\<^sup>0\<^sup>2\<^sup>2\<close> the fixed spacing \<open>2\<^sup>-\<^sup>1\<^sup>0\<^sup>7\<^sup>4\<close> of the subnormal numbers.
  Infinities and NaN are not represented: \<open>double\<close> is the program's rounding for
  results of magnitude below \<open>2\<^sup>1\<^sup>0\<^sup>2\<^sup>4\<close>, where binary64 does not overflow.

  \<^verbatim>\<open>round(x, 3)\<close> on a float is \<open>float_round3\<close>: CPython takes the exact binary
  value \<open>x\<close> of the float, selects the nearest decimal with three places, half to even
  (\<open>round3 x\<close>), and returns the binary64 value nearest to that decimal.
\<close>

definition pow2 :: "int \<Rightarrow> real" where
  "pow2 k = (if 0 \<le> k then 2 ^ nat k else 1 / 2 ^ nat (- k))"

definition double :: "real \<Rightarrow> real" where
  "double x =
     (if x = 0 then 0
      else let e = max \<lfloor>log 2 \<bar>x\<bar>\<rfloor> (- 1022);
               ulp = pow2 (e - 52)
           in of_int (round_half_even (x / ulp)) * ulp)"

definition float_round3 :: "real \<Rightarrow> real" where
  "float_round3 x = double (round3 x)"

text \<open>
  \<^verbatim>\<open>list.sort(key=..., reverse=True)\<close>: a stable sort into descending key order.
  CPython reverses the list, sorts it stably into ascending order and reverses the result.
\<close>

definition sort_reverse :: "('a \<Rightarrow> real) \<Rightarrow> 'a list \<Rightarrow> 'a list" where
  "sort_reverse key xs = rev (sort_key key (rev xs))"

section \<open>The environment: generated ids and the clock\<close>

record world =
  uuid_src :: "nat \<Rightarrow> nat"
  clock_src :: "nat \<Rightarrow> string"
  uuid_calls :: nat
  clock_calls :: nat

definition hexdigit :: "nat \<Rightarrow> char" where
  "hexdigit n = ''0123456789abcdef'' ! (n mod 16)"

fun hex_digits :: "nat \<Rightarrow> nat \<Rightarrow> string" where
  "hex_digits 0 n = []"
| "hex_digits (Suc k) n = hex_digits k (n div 16) @ [hexdigit n]"

text \<open>\<^verbatim>\<open>uuid.uuid4().hex\<close>: the 32 hexadecimal digits of the next 128-bit number.\<close>

definition uuid4_hex :: "world \<Rightarrow> string \<times> world" where
  "uuid4_hex w =
     (hex_digits 32 (uuid_src w (uuid_calls w)), w\<lparr>uuid_calls := Suc (uuid_calls w)\<rparr>)"

text \<open>\<^verbatim>\<open>datetime.now(timezone.utc).isoformat()\<close>: the next clock reading.\<close>

definition now_isoformat :: "world \<Rightarrow> string \<times> world" where
  "now_isoformat w =
     (clock_src w (clock_calls w), w\<lparr>clock_calls := Suc (clock_calls w)\<rparr>)"

section \<open>Enumerations\<close>

datatype FrameType =
  NORMATIVE | LINGUISTIC | INSTITUTIONAL | TEMPORAL | EPISTEMIC | ECONOMIC
  | TECHNOLOGICAL | MYTHOLOGICAL

datatype MaskType =
  AUTHORITY | BENEVOLENCE | NEUTRALITY | MERITOCRACY | INEVITABILITY | TRADITION
  | INNOVATION | EXPERTISE

datatype SpellType =
  ORIGIN_MYTH | PROGRESS_NARRATIVE | FEAR_NARRATIVE | SCARCITY_SPELL | IDENTITY_SPELL
  | COMPLEXITY_SPELL | UNITY_SPELL | BINARY_SPELL

datatype PrisonType =
  CHOICE_ARCHITECTURE | OVERTON_WINDOW | DEBT_STRUCTURE | CREDENTIAL_GATE | PLATFORM_LOCK
  | TEMPORAL_TRAP | IDENTITY_CAGE | LEARNED_HELPLESSNESS

datatype CrumbType = QUESTION | PATTERN | PARADOX | BRIDGE | MIRROR | TRAIL | SIGNAL

datatype SeeingDepth =
  D_SURFACE | D_PATTERN | D_STRUCTURE | D_GENERATIVE | D_RECURSIVE | D_INTEGRAL


fun MaskType_name :: "MaskType \<Rightarrow> string" where
  "MaskType_name AUTHORITY = ''AUTHORITY''"
| "MaskType_name BENEVOLENCE = ''BENEVOLENCE''"
| "MaskType_name NEUTRALITY = ''NEUTRALITY''"
| "MaskType_name MERITOCRACY = ''MERITOCRACY''"
| "MaskType_name INEVITABILITY = ''INEVITABILITY''"
| "MaskType_name TRADITION = ''TRADITION''"
| "MaskType_name INNOVATION = ''INNOVATION''"
| "MaskType_name EXPERTISE = ''EXPERTISE''"

fun SpellType_name :: "SpellType \<Rightarrow> string" where
  "SpellType_name ORIGIN_MYTH = ''ORIGIN_MYTH''"
| "SpellType_name PROGRESS_NARRATIVE = ''PROGRESS_NARRATIVE''"
| "SpellType_name FEAR_NARRATIVE = ''FEAR_NARRATIVE''"
| "SpellType_name SCARCITY_SPELL = ''SCARCITY_SPELL''"
| "SpellType_name IDENTITY_SPELL = ''IDENTITY_SPELL''"
| "SpellType_name COMPLEXITY_SPELL = ''COMPLEXITY_SPELL''"
| "SpellType_name UNITY_SPELL = ''UNITY_SPELL''"
| "SpellType_name BINARY_SPELL = ''BINARY_SPELL''"


fun CrumbType_name :: "CrumbType \<Rightarrow> string" where
  "CrumbType_name QUESTION = ''QUESTION''"
| "CrumbType_name PATTERN = ''PATTERN''"
| "CrumbType_name PARADOX = ''PARADOX''"
| "CrumbType_name BRIDGE = ''BRIDGE''"
| "CrumbType_name MIRROR = ''MIRROR''"
| "CrumbType_name TRAIL = ''TRAIL''"
| "CrumbType_name SIGNAL = ''SIGNAL''"

section \<open>The signal tables\<close>

text \<open>
  Each table is the list of its items in insertion order: the type tag and the
  \<^verbatim>\<open>"signals"\<close> list of the entry.
\<close>

definition FRAME_SIGNALS :: "(FrameType \<times> string list) list" where
  "FRAME_SIGNALS =
   [(NORMATIVE,
     [''normal'', ''natural'', ''obvious'', ''common sense'', ''everyone knows'',
      ''that's just how it is'', ''tradition'', ''always been'', ''standard'',
      ''the way things work'', ''realistic'', ''pragmatic'', ''inevitable'',
      ''human nature'', ''the real world'']),
    (LINGUISTIC,
     [''stakeholder'', ''human resources'', ''collateral damage'', ''externality'',
      ''disruption'', ''optimization'', ''leverage'', ''synergy'', ''alignment'',
      ''market forces'', ''talent'', ''assets'', ''capital'', ''deliverables'',
      ''value proposition'', ''growth'', ''scale'']),
    (INSTITUTIONAL,
     [''policy'', ''procedure'', ''compliance'', ''regulation'', ''governance'',
      ''protocol'', ''due process'', ''standard operating'', ''best practice'',
      ''industry standard'', ''accreditation'', ''certification'', ''authorized'',
      ''official channels'', ''chain of command'']),
    (TEMPORAL,
     [''progress'', ''inevitable'', ''the future'', ''moving forward'', ''behind the times'',
      ''modernization'', ''next generation'', ''legacy'', ''outdated'', ''evolving'',
      ''trajectory'', ''momentum'', ''disruption cycle'', ''paradigm shift'',
      ''the arc of history'', ''tipping point'']),
    (EPISTEMIC,
     [''evidence-based'', ''data-driven'', ''peer-reviewed'', ''scientific consensus'',
      ''expert opinion'', ''credible sources'', ''methodology'', ''rigorous'',
      ''statistically significant'', ''empirical'', ''objective'', ''measurable'',
      ''anecdotal'', ''unsubstantiated'', ''misinformation'']),
    (ECONOMIC,
     [''market'', ''efficiency'', ''roi'', ''cost-benefit'', ''productivity'',
      ''scarcity'', ''supply and demand'', ''rational actor'', ''incentive'',
      ''GDP'', ''profit margin'', ''bottom line'', ''valuation'', ''monetize'',
      ''free market'', ''competition'', ''shareholder value'']),
    (TECHNOLOGICAL,
     [''platform'', ''algorithm'', ''AI'', ''automation'', ''machine learning'',
      ''digital transformation'', ''smart'', ''cloud'', ''API'', ''ecosystem'',
      ''scalable'', ''disruptive'', ''innovation'', ''tech-enabled'',
      ''frictionless'', ''seamless'', ''personalized'']),
    (MYTHOLOGICAL,
     [''founding fathers'', ''self-made'', ''American dream'', ''invisible hand'',
      ''meritocracy'', ''free world'', ''civilization'', ''manifest destiny'',
      ''the people'', ''our values'', ''who we are'', ''heritage'', ''legacy'',
      ''promised land'', ''chosen'', ''destiny'', ''greatness''])]"

definition MASK_SIGNALS :: "(MaskType \<times> string list) list" where
  "MASK_SIGNALS =
   [(AUTHORITY,
     [''leadership'', ''executive'', ''decision-maker'', ''vision'', ''strategy'',
      ''mandate'', ''direction'', ''C-suite'', ''board'', ''governance'']),
    (BENEVOLENCE,
     [''for your own good'', ''we care'', ''protecting'', ''safety'', ''support'',
      ''help'', ''empower'', ''serve'', ''community'', ''wellbeing'']),
    (NEUTRALITY,
     [''objective'', ''balanced'', ''both sides'', ''unbiased'', ''fair'',
      ''neutral'', ''apolitical'', ''nonpartisan'', ''just the facts'', ''centrist'']),
    (MERITOCRACY,
     [''earned'', ''deserved'', ''talent'', ''hard work'', ''achievement'',
      ''performance'', ''best and brightest'', ''top tier'', ''elite'', ''competitive'']),
    (INEVITABILITY,
     [''no alternative'', ''the only way'', ''necessary'', ''unavoidable'',
      ''market forces'', ''economic reality'', ''there is no choice'', ''we must'',
      ''the situation demands'', ''forced by circumstances'']),
    (TRADITION,
     [''always been done'', ''heritage'', ''custom'', ''roots'', ''values'',
      ''time-tested'', ''wisdom of the ages'', ''sacred'', ''founding principles'']),
    (INNOVATION,
     [''disrupt'', ''transform'', ''revolutionize'', ''cutting-edge'', ''future'',
      ''breakthrough'', ''paradigm shift'', ''next generation'', ''reimagine'']),
    (EXPERTISE,
     [''expert'', ''specialist'', ''authority'', ''credentials'', ''certification'',
      ''qualified'', ''trained'', ''professional'', ''accredited'', ''peer-reviewed''])]"

definition SPELL_SIGNALS :: "(SpellType \<times> string list) list" where
  "SPELL_SIGNALS =
   [(ORIGIN_MYTH,
     [''founded'', ''began'', ''origin'', ''genesis'', ''founding'', ''started with'',
      ''our story'', ''once upon'', ''in the beginning'', ''from humble beginnings'']),
    (PROGRESS_NARRATIVE,
     [''better'', ''improving'', ''growing'', ''advancing'', ''developing'',
      ''more than ever'', ''unprecedented'', ''next level'', ''forward'']),
    (FEAR_NARRATIVE,
     [''threat'', ''danger'', ''crisis'', ''enemy'', ''collapse'', ''catastrophe'',
      ''if we don't act now'', ''at risk'', ''under attack'', ''existential'']),
    (SCARCITY_SPELL,
     [''not enough'', ''limited'', ''scarce'', ''running out'', ''competition'',
      ''zero-sum'', ''fight for'', ''earn your place'', ''only the best'']),
    (IDENTITY_SPELL,
     [''we are'', ''our people'', ''who we are'', ''our values'', ''our kind'',
      ''real Americans'', ''true believers'', ''the faithful'', ''patriots'']),
    (COMPLEXITY_SPELL,
     [''it's complicated'', ''you wouldn't understand'', ''technical'', ''nuanced'',
      ''leave it to the experts'', ''too complex'', ''sophisticated'', ''intricate'']),
    (UNITY_SPELL,
     [''together'', ''united'', ''one team'', ''shared purpose'', ''collective'',
      ''all of us'', ''in this together'', ''common goal'', ''solidarity'']),
    (BINARY_SPELL,
     [''either'', ''or'', ''with us'', ''against us'', ''right side of history'',
      ''good vs evil'', ''black and white'', ''choose a side'', ''no middle ground''])]"

definition PRISON_SIGNALS :: "(PrisonType \<times> string list) list" where
  "PRISON_SIGNALS =
   [(CHOICE_ARCHITECTURE,
     [''option'', ''plan'', ''tier'', ''package'', ''menu'', ''choose from'',
      ''select'', ''pick'', ''preference'', ''customize'']),
    (OVERTON_WINDOW,
     [''mainstream'', ''fringe'', ''extreme'', ''moderate'', ''reasonable'',
      ''radical'', ''unthinkable'', ''acceptable'', ''politically feasible'']),
    (DEBT_STRUCTURE,
     [''loan'', ''mortgage'', ''tuition'', ''credit'', ''payment plan'',
      ''interest'', ''debt'', ''obligation'', ''owe'', ''afford'']),
    (CREDENTIAL_GATE,
     [''degree'', ''certification'', ''accreditation'', ''qualified'',
      ''licensed'', ''authorized'', ''prerequisite'', ''requirements'']),
    (PLATFORM_LOCK,
     [''ecosystem'', ''integration'', ''compatible'', ''API'', ''platform'',
      ''migration cost'', ''switching cost'', ''vendor'', ''proprietary'']),
    (TEMPORAL_TRAP,
     [''busy'', ''no time'', ''deadline'', ''urgent'', ''ASAP'',
      ''bandwidth'', ''overwhelmed'', ''sprint'', ''crunch'', ''hustle'']),
    (IDENTITY_CAGE,
     [''people like us'', ''that's not who I am'', ''I could never'',
      ''that's not for people like me'', ''stay in your lane'', ''know your place'']),
    (LEARNED_HELPLESSNESS,
     [''nothing changes'', ''what's the point'', ''they won't let us'',
      ''it's always been this way'', ''you can't fight'', ''too big to change''])]"

section \<open>Findings\<close>

record Frame =
  frame_id :: string
  frame_type :: FrameType
  unspoken_rules :: "string list"
  strength :: real
  frame_visibility :: real
  detected_at :: string

record Mask =
  mask_id :: string
  actor :: string
  mask_type :: MaskType
  formal_role :: string
  performance :: string

record Spell =
  spell_id :: string
  spell_type :: SpellType
  narrative :: string
  potency :: real
  reach :: real

record Prison =
  prison_id :: string
  prison_type :: PrisonType
  invisible_walls :: "string list"
  elegance :: real

section \<open>Module 1: the frame detector\<close>

text \<open>
  The loop of \<^verbatim>\<open>detect_frames\<close> over \<^verbatim>\<open>FRAME_SIGNALS.items()\<close>: an entry with no
  matched signal is skipped; otherwise a \<^verbatim>\<open>Frame\<close> is constructed (its default
  factories draw the id, then the timestamp) and appended with its density.
\<close>

fun detect_frames_loop ::
  "string \<Rightarrow> (FrameType \<times> string list) list \<Rightarrow> world \<Rightarrow> (real \<times> Frame) list \<times> world" where
  "detect_frames_loop text_lower [] w = ([], w)"
| "detect_frames_loop text_lower ((ft, signals) # rest) w =
     (let matched = filter (\<lambda>s. substring_in s text_lower) signals
      in if matched = [] then detect_frames_loop text_lower rest w
         else
           let density = real (length matched) / real (length signals);
               strength = min (density * 2) 1;
               (u, w1) = uuid4_hex w;
               (ts, w2) = now_isoformat w1;
               frame = \<lparr>frame_id = take 12 u, frame_type = ft,
                        unspoken_rules =
                          map (\<lambda>m. ''Signal detected: '' @ [CHR 0x27] @ m @ [CHR 0x27]) matched,
                        strength = strength, frame_visibility = 1 - strength,
                        detected_at = ts\<rparr>;
               (results, w3) = detect_frames_loop text_lower rest w2
           in ((density, frame) # results, w3))"

definition detect_frames :: "world \<Rightarrow> string \<Rightarrow> string \<Rightarrow> Frame list \<times> world" where
  "detect_frames w text context =
     (let text_lower = lower text @ '' '' @ lower context;
          (results, w') = detect_frames_loop text_lower FRAME_SIGNALS w
      in (map snd (sort_reverse fst results), w'))"

section \<open>Module 2: the influence graph and the mask identifier\<close>

record InfluenceEdge =
  source :: string
  target :: string
  relation :: string
  weight :: real
  visible :: bool
  mask_used :: "string option"

text \<open>
  \<^verbatim>\<open>d[k] = v\<close> on an insertion-ordered dictionary: an existing key keeps its place.
\<close>

fun dict_set :: "('k \<times> 'v) list \<Rightarrow> 'k \<Rightarrow> 'v \<Rightarrow> ('k \<times> 'v) list" where
  "dict_set [] k v = [(k, v)]"
| "dict_set ((k', v') # kvs) k v =
     (if k' = k then (k, v) # kvs else (k', v') # dict_set kvs k v)"

record InfluenceGraph =
  actors :: "(string \<times> Mask) list"
  edges :: "InfluenceEdge list"

definition InfluenceGraph_init :: InfluenceGraph where
  "InfluenceGraph_init = \<lparr>actors = [], edges = []\<rparr>"

definition add_actor :: "InfluenceGraph \<Rightarrow> Mask \<Rightarrow> InfluenceGraph" where
  "add_actor g m = g\<lparr>actors := dict_set (actors g) (actor m) m\<rparr>"

definition add_edge :: "InfluenceGraph \<Rightarrow> InfluenceEdge \<Rightarrow> InfluenceGraph" where
  "add_edge g edge = g\<lparr>edges := edges g @ [edge]\<rparr>"

text \<open>
  The loop of \<^verbatim>\<open>InfluenceGraph.identify_masks\<close>: every mask that is built is also
  registered in the graph under its synthesized actor label.
\<close>

fun identify_masks_loop ::
  "string \<Rightarrow> (MaskType \<times> string list) list \<Rightarrow> InfluenceGraph \<Rightarrow> world
     \<Rightarrow> (real \<times> Mask) list \<times> InfluenceGraph \<times> world" where
  "identify_masks_loop text_lower [] g w = ([], g, w)"
| "identify_masks_loop text_lower ((mt, signals) # rest) g w =
     (let matched = filter (\<lambda>s. substring_in s text_lower) signals
      in if matched = [] then identify_masks_loop text_lower rest g w
         else
           let density = real (length matched) / real (length signals);
               (u, w1) = uuid4_hex w;
               m = \<lparr>mask_id = take 12 u,
                    actor = ''[Actor performing '' @ MaskType_name mt @ '']'',
                    mask_type = mt,
                    formal_role = join '', '' matched,
                    performance = ''Signals: '' @ join '', '' matched\<rparr>;
               g1 = add_actor g m;
               (results, g2, w2) = identify_masks_loop text_lower rest g1 w1
           in ((density, m) # results, g2, w2))"

definition InfluenceGraph_identify_masks ::
  "world \<Rightarrow> InfluenceGraph \<Rightarrow> string \<Rightarrow> Mask list \<times> InfluenceGraph \<times> world" where
  "InfluenceGraph_identify_masks w g text =
     (let text_lower = lower text;
          (results, g', w') = identify_masks_loop text_lower MASK_SIGNALS g w
      in (map snd (sort_reverse fst results), g', w'))"

text \<open>The module-level \<^verbatim>\<open>identify_masks\<close>: a fresh graph, dropped afterwards.\<close>

definition identify_masks :: "world \<Rightarrow> string \<Rightarrow> Mask list \<times> world" where
  "identify_masks w text =
     (let (masks, g, w') = InfluenceGraph_identify_masks w InfluenceGraph_init text
      in (masks, w'))"

text \<open>
  \<^verbatim>\<open>find_puppeteers\<close>. The three \<^verbatim>\<open>defaultdict\<close>s are read only through
  \<^verbatim>\<open>.get(actor, default)\<close> with the default of their factory, so they are total functions.
  The weights are accumulated with \<^verbatim>\<open>+=\<close> in the order of the edge list, each
  addition rounded. In the score, \<^verbatim>\<open>0.01\<close> is the float nearest to \<open>1/100\<close>, the
  quotient is rounded, the integer \<^verbatim>\<open>1 + hidden\<close> is converted to a float and the
  product is rounded, before \<^verbatim>\<open>round(..., 3)\<close>.
\<close>

fun tally_edges ::
  "InfluenceEdge list \<Rightarrow> (string \<Rightarrow> real) \<times> (string \<Rightarrow> real) \<times> (string \<Rightarrow> nat)
     \<Rightarrow> (string \<Rightarrow> real) \<times> (string \<Rightarrow> real) \<times> (string \<Rightarrow> nat)" where
  "tally_edges [] acc = acc"
| "tally_edges (edge # rest) (outgoing, incoming, hidden_count) =
     (let outgoing1 = outgoing(source edge := double (outgoing (source edge) + weight edge));
          incoming1 = incoming(target edge := double (incoming (target edge) + weight edge));
          hidden_count1 =
            (if \<not> visible edge
             then hidden_count(source edge := hidden_count (source edge) + 1)
             else hidden_count)
      in tally_edges rest (outgoing1, incoming1, hidden_count1))"

record Puppeteer =
  puppeteer_actor :: string
  outgoing_influence :: real
  incoming_influence :: real
  hidden_connections :: nat
  puppet_score :: real

fun puppeteers_loop ::
  "string list \<Rightarrow> (string \<Rightarrow> real) \<Rightarrow> (string \<Rightarrow> real) \<Rightarrow> (string \<Rightarrow> nat)
     \<Rightarrow> Puppeteer list" where
  "puppeteers_loop [] outgoing incoming hidden_count = []"
| "puppeteers_loop (a # rest) outgoing incoming hidden_count =
     (let out = outgoing a; inc = incoming a; hidden = hidden_count a
      in if inc < out \<and> 0 < hidden
         then \<lparr>puppeteer_actor = a,
               outgoing_influence = float_round3 out,
               incoming_influence = float_round3 inc,
               hidden_connections = hidden,
               puppet_score =
                 float_round3
                   (double (double (out / max inc (double (1/100)))
                            * double (real (1 + hidden))))\<rparr>
              # puppeteers_loop rest outgoing incoming hidden_count
         else puppeteers_loop rest outgoing incoming hidden_count)"

definition find_puppeteers :: "InfluenceGraph \<Rightarrow> Puppeteer list" where
  "find_puppeteers g =
     (let (outgoing, incoming, hidden_count) =
            tally_edges (edges g) (\<lambda>_. 0, \<lambda>_. 0, \<lambda>_. 0);
          puppeteers = puppeteers_loop (map fst (actors g)) outgoing incoming hidden_count
      in sort_reverse puppet_score puppeteers)"

section \<open>Module 3: the spell analyzer\<close>

fun analyze_spells_loop ::
  "string \<Rightarrow> (SpellType \<times> string list) list \<Rightarrow> world \<Rightarrow> (real \<times> Spell) list \<times> world" where
  "analyze_spells_loop text_lower [] w = ([], w)"
| "analyze_spells_loop text_lower ((st, signals) # rest) w =
     (let matched = filter (\<lambda>s. substring_in s text_lower) signals
      in if matched = [] then analyze_spells_loop text_lower rest w
         else
           let density = real (length matched) / real (length signals);
               potency = min (density * 2.5) 1;
               (u, w1) = uuid4_hex w;
               spell = \<lparr>spell_id = take 12 u, spell_type = st,
                        narrative = ''Detected narrative signals: '' @ join '', '' matched,
                        potency = potency, reach = density\<rparr>;
               (results, w2) = analyze_spells_loop text_lower rest w1
           in ((potency, spell) # results, w2))"

definition analyze_spells :: "world \<Rightarrow> string \<Rightarrow> Spell list \<times> world" where
  "analyze_spells w text =
     (let text_lower = lower text;
          (results, w') = analyze_spells_loop text_lower SPELL_SIGNALS w
      in (map snd (sort_reverse fst results), w'))"

section \<open>Module 4: the prison mapper\<close>

fun map_prisons_loop ::
  "string \<Rightarrow> (PrisonType \<times> string list) list \<Rightarrow> world \<Rightarrow> (real \<times> Prison) list \<times> world" where
  "map_prisons_loop text_lower [] w = ([], w)"
| "map_prisons_loop text_lower ((pt, signals) # rest) w =
     (let matched = filter (\<lambda>s. substring_in s text_lower) signals
      in if matched = [] then map_prisons_loop text_lower rest w
         else
           let density = real (length matched) / real (length signals);
               elegance = min (density * 2) 1;
               (u, w1) = uuid4_hex w;
               prison = \<lparr>prison_id = take 12 u, prison_type = pt,
                         invisible_walls =
                           map (\<lambda>m. ''Signal: '' @ [CHR 0x27] @ m @ [CHR 0x27]) matched,
                         elegance = elegance\<rparr>;
               (results, w2) = map_prisons_loop text_lower rest w1
           in ((elegance, prison) # results, w2))"

definition map_prisons :: "world \<Rightarrow> string \<Rightarrow> Prison list \<times> world" where
  "map_prisons w text =
     (let text_lower = lower text;
          (results, w') = map_prisons_loop text_lower PRISON_SIGNALS w
      in (map snd (sort_reverse fst results), w'))"

section \<open>The spell potency report\<close>

text \<open>
  \<^verbatim>\<open>d[k] += 1\<close> on a \<^verbatim>\<open>defaultdict(int)\<close>: a new key is appended with count 1.
\<close>

fun dict_incr :: "('k \<times> int) list \<Rightarrow> 'k \<Rightarrow> ('k \<times> int) list" where
  "dict_incr [] k = [(k, 1)]"
| "dict_incr ((k', v) # kvs) k =
     (if k' = k then (k', v + 1) # kvs else (k', v) # dict_incr kvs k)"

text \<open>\<^verbatim>\<open>max(xs, key=f)\<close> on a non-empty list: the first element with the greatest key.\<close>

fun max_by :: "('a \<Rightarrow> real) \<Rightarrow> 'a \<Rightarrow> 'a list \<Rightarrow> 'a" where
  "max_by f best [] = best"
| "max_by f best (x # xs) = max_by f (if f best < f x then x else best) xs"

definition spell_type_counts :: "Spell list \<Rightarrow> (string \<times> int) list" where
  "spell_type_counts spells =
     fold (\<lambda>s type_counts. dict_incr type_counts (SpellType_name (spell_type s))) spells []"

text \<open>The local \<^verbatim>\<open>entropy\<close> of \<^verbatim>\<open>compute_spell_potency\<close>, for a non-empty list.\<close>

definition spell_entropy :: "Spell list \<Rightarrow> real" where
  "spell_entropy spells =
     (let type_counts = spell_type_counts spells;
          total = sum_list (map snd type_counts)
      in - sum_list (map (\<lambda>c. (real_of_int c / real_of_int total)
                               * log 2 (real_of_int c / real_of_int total))
                      (filter (\<lambda>c. 0 < c) (map snd type_counts))))"

record potency_report =
  aggregate_potency :: real
  dominant_spell :: "Spell option"
  spell_count :: nat
  spell_diversity :: "real option"
  enchantment_level :: string
  spell_breakdown :: "(string \<times> real) list"

text \<open>
  \<^verbatim>\<open>compute_spell_potency\<close>. The report for an empty list has no
  \<^verbatim>\<open>spell_diversity\<close> and no \<^verbatim>\<open>spell_breakdown\<close> key. The generated
  \<^verbatim>\<open>insight\<close> sentence is not represented. The mean potency and the entropy are
  kept in exact arithmetic (the binary64 value of \<^verbatim>\<open>math.log2\<close> is that of the C
  library), and the reported values are the decimals \<open>round3\<close> nearest to them.
\<close>

definition compute_spell_potency :: "Spell list \<Rightarrow> potency_report" where
  "compute_spell_potency spells =
     (case spells of
        [] \<Rightarrow> \<lparr>aggregate_potency = 0, dominant_spell = None, spell_count = 0,
               spell_diversity = None, enchantment_level = ''clear'', spell_breakdown = []\<rparr>
      | s0 # rest \<Rightarrow>
          let aggregate = sum_list (map potency spells) / real (length spells);
              dominant = max_by potency s0 rest;
              entropy = spell_entropy spells;
              level = (if 0.8 \<le> aggregate then ''total_enchantment''
                       else if 0.6 \<le> aggregate then ''heavy_enchantment''
                       else if 0.4 \<le> aggregate then ''moderate_enchantment''
                       else if 0.2 \<le> aggregate then ''light_enchantment''
                       else ''minimal_enchantment'')
          in \<lparr>aggregate_potency = round3 aggregate, dominant_spell = Some dominant,
               spell_count = length spells, spell_diversity = Some (round3 entropy),
               enchantment_level = level,
               spell_breakdown =
                 fold (\<lambda>s d. dict_set d (SpellType_name (spell_type s)) (potency s)) spells []\<rparr>)"

section \<open>Parsed JSON and the exceptions of the loaders\<close>

text \<open>
  A \<open>json\<close> value is the object tree that \<^verbatim>\<open>json.loads\<close> returns and that
  \<^verbatim>\<open>json.dumps\<close> takes: writing a tree with \<^verbatim>\<open>json.dumps\<close> and parsing the text
  back gives the same tree, so a snapshot file is represented by its tree. A parsed
  object has pairwise distinct keys, in file order.
\<close>

datatype json =
  JNull | JBool bool | JInt int | JFloat real | JStr string
  | JArr "json list" | JObj "(string \<times> json) list"

text \<open>
  The exceptions a loader can meet. \<open>Unmodelled\<close> is not an exception: it marks a
  snapshot that holds a value outside the declared type of the attribute it is loaded
  into (Python stores it without a check), or a conversion whose outcome depends on
  details of Python's sequence protocol; the typed model does not follow the program
  further on such a snapshot.
\<close>

datatype error = KeyError | TypeError | ValueError | AttributeError | Unmodelled

text \<open>\<^verbatim>\<open>data[key]\<close> with a string key.\<close>

fun subscript :: "json \<Rightarrow> string \<Rightarrow> error + json" where
  "subscript (JObj kvs) key = (case map_of kvs key of None \<Rightarrow> Inl KeyError | Some v \<Rightarrow> Inr v)"
| "subscript _ key = Inl TypeError"

text \<open>\<^verbatim>\<open>data.get(key, default)\<close>: only a \<^verbatim>\<open>dict\<close> has the method.\<close>

fun json_get :: "json \<Rightarrow> string \<Rightarrow> json \<Rightarrow> error + json" where
  "json_get (JObj kvs) key dflt = (case map_of kvs key of None \<Rightarrow> Inr dflt | Some v \<Rightarrow> Inr v)"
| "json_get _ key dflt = Inl AttributeError"

text \<open>Truth value of a parsed value, as \<^verbatim>\<open>or\<close> tests it.\<close>

fun truthy :: "json \<Rightarrow> bool" where
  "truthy JNull = False"
| "truthy (JBool b) = b"
| "truthy (JInt n) = (n \<noteq> 0)"
| "truthy (JFloat x) = (x \<noteq> 0)"
| "truthy (JStr s) = (s \<noteq> [])"
| "truthy (JArr xs) = (xs \<noteq> [])"
| "truthy (JObj kvs) = (kvs \<noteq> [])"

text \<open>
  The items a \<^verbatim>\<open>for\<close> loop draws from a parsed value: the elements of a list, the
  keys of a dict, the characters of a string; the other values are not iterable.
\<close>

fun iter_items :: "json \<Rightarrow> error + json list" where
  "iter_items (JArr xs) = Inr xs"
| "iter_items (JObj kvs) = Inr (map (\<lambda>kv. JStr (fst kv)) kvs)"
| "iter_items (JStr s) = Inr (map (\<lambda>c. JStr [c]) s)"
| "iter_items _ = Inl TypeError"

fun as_str :: "json \<Rightarrow> error + string" where
  "as_str (JStr s) = Inr s"
| "as_str _ = Inl Unmodelled"

fun as_opt_str :: "json \<Rightarrow> error + string option" where
  "as_opt_str JNull = Inr None"
| "as_opt_str (JStr s) = Inr (Some s)"
| "as_opt_str _ = Inl Unmodelled"

fun as_str_list :: "json \<Rightarrow> error + string list" where
  "as_str_list (JArr []) = Inr []"
| "as_str_list (JArr (x # xs)) =
     (case as_str x of Inl e \<Rightarrow> Inl e
      | Inr s \<Rightarrow> (case as_str_list (JArr xs) of Inl e \<Rightarrow> Inl e | Inr ss \<Rightarrow> Inr (s # ss)))"
| "as_str_list _ = Inl Unmodelled"

text \<open>
  \<^verbatim>\<open>defaultdict(factory, value)\<close>, that is \<^verbatim>\<open>dict(value)\<close>: a dict is copied, an
  empty list or string gives the empty dict, a non-empty string raises
  \<^verbatim>\<open>ValueError\<close> (its first element has length 1), a number, a boolean or
  \<^verbatim>\<open>None\<close> raises \<^verbatim>\<open>TypeError\<close>. The conversion of a non-empty list depends on its
  elements and is not represented.
\<close>

fun dict_items :: "json \<Rightarrow> error + (string \<times> json) list" where
  "dict_items (JObj kvs) = Inr kvs"
| "dict_items (JArr []) = Inr []"
| "dict_items (JArr (x # xs)) = Inl Unmodelled"
| "dict_items (JStr []) = Inr []"
| "dict_items (JStr (c # s)) = Inl ValueError"
| "dict_items _ = Inl TypeError"

text \<open>Sequencing of fallible steps: the first exception ends the computation.\<close>

definition bind :: "error + 'a \<Rightarrow> ('a \<Rightarrow> error + 'b) \<Rightarrow> error + 'b" where
  "bind m f = (case m of Inl e \<Rightarrow> Inl e | Inr x \<Rightarrow> f x)"

fun map_result :: "('a \<Rightarrow> error + 'b) \<Rightarrow> 'a list \<Rightarrow> error + 'b list" where
  "map_result f [] = Inr []"
| "map_result f (x # xs) =
     bind (f x) (\<lambda>y. bind (map_result f xs) (\<lambda>ys. Inr (y # ys)))"

section \<open>Module 5: the crumb trail\<close>

record Crumb =
  crumb_id :: string
  crumb_type :: CrumbType
  content :: string
  crumb_context :: string
  crumb_visibility :: string
  target_audience :: string
  decay_time :: "string option"
  chain_id :: "string option"
  created_at :: string

definition opt_json :: "string option \<Rightarrow> json" where
  "opt_json x = (case x of None \<Rightarrow> JNull | Some s \<Rightarrow> JStr s)"

definition Crumb_to_dict :: "Crumb \<Rightarrow> json" where
  "Crumb_to_dict c =
     JObj [(''crumb_id'', JStr (crumb_id c)),
           (''crumb_type'', JStr (CrumbType_name (crumb_type c))),
           (''content'', JStr (content c)),
           (''context'', JStr (crumb_context c)),
           (''visibility'', JStr (crumb_visibility c)),
           (''target_audience'', JStr (target_audience c)),
           (''decay_time'', opt_json (decay_time c)),
           (''chain_id'', opt_json (chain_id c)),
           (''created_at'', JStr (created_at c))]"

record CrumbTrail =
  trail_id :: string
  crumbs :: "Crumb list"
  chains :: "(string \<times> string list) list"

text \<open>
  \<^verbatim>\<open>CrumbTrail.__init__\<close>: \<^verbatim>\<open>trail_id or uuid.uuid4().hex[:16]\<close> draws an id when the
  argument is \<^verbatim>\<open>None\<close> or the empty string.
\<close>

definition CrumbTrail_init :: "world \<Rightarrow> string option \<Rightarrow> CrumbTrail \<times> world" where
  "CrumbTrail_init w tid =
     (case tid of
        Some t \<Rightarrow>
          if t \<noteq> [] then (\<lparr>trail_id = t, crumbs = [], chains = []\<rparr>, w)
          else (let (u, w1) = uuid4_hex w
                in (\<lparr>trail_id = take 16 u, crumbs = [], chains = []\<rparr>, w1))
      | None \<Rightarrow>
          (let (u, w1) = uuid4_hex w
           in (\<lparr>trail_id = take 16 u, crumbs = [], chains = []\<rparr>, w1)))"

text \<open>\<^verbatim>\<open>d[k].append(v)\<close> on a \<^verbatim>\<open>defaultdict(list)\<close>.\<close>

fun dict_append :: "('k \<times> 'v list) list \<Rightarrow> 'k \<Rightarrow> 'v \<Rightarrow> ('k \<times> 'v list) list" where
  "dict_append [] k v = [(k, [v])]"
| "dict_append ((k', vs) # kvs) k v =
     (if k' = k then (k', vs @ [v]) # kvs else (k', vs) # dict_append kvs k v)"

definition drop_crumb ::
  "world \<Rightarrow> CrumbTrail \<Rightarrow> string \<Rightarrow> CrumbType \<Rightarrow> string \<Rightarrow> string \<Rightarrow> string \<Rightarrow> string option
     \<Rightarrow> Crumb \<times> CrumbTrail \<times> world" where
  "drop_crumb w t content' crumb_type' context' visibility' target_audience' chain_id' =
     (let cid = (case chain_id' of Some c \<Rightarrow> if c \<noteq> [] then c else trail_id t
                 | None \<Rightarrow> trail_id t);
          (u, w1) = uuid4_hex w;
          (ts, w2) = now_isoformat w1;
          crumb = \<lparr>crumb_id = take 12 u, crumb_type = crumb_type', content = content',
                    crumb_context = context', crumb_visibility = visibility',
                    target_audience = target_audience', decay_time = None,
                    chain_id = Some cid, created_at = ts\<rparr>
      in (crumb,
          t\<lparr>crumbs := crumbs t @ [crumb], chains := dict_append (chains t) cid (crumb_id crumb)\<rparr>,
          w2))"

text \<open>
  \<^verbatim>\<open>persist\<close>: the tree handed to \<^verbatim>\<open>json.dumps\<close> and written to the path.
\<close>

definition persist :: "world \<Rightarrow> CrumbTrail \<Rightarrow> json \<times> world" where
  "persist w t =
     (let (ts, w1) = now_isoformat w
      in (JObj [(''trail_id'', JStr (trail_id t)),
                (''crumbs'', JArr (map Crumb_to_dict (crumbs t))),
                (''chains'', JObj (map (\<lambda>(k, ids). (k, JArr (map JStr ids))) (chains t))),
                (''saved_at'', JStr ts)],
          w1))"

fun CrumbType_of_name :: "json \<Rightarrow> error + CrumbType" where
  "CrumbType_of_name (JStr s) =
     (if s = ''QUESTION'' then Inr QUESTION
      else if s = ''PATTERN'' then Inr PATTERN
      else if s = ''PARADOX'' then Inr PARADOX
      else if s = ''BRIDGE'' then Inr BRIDGE
      else if s = ''MIRROR'' then Inr MIRROR
      else if s = ''TRAIL'' then Inr TRAIL
      else if s = ''SIGNAL'' then Inr SIGNAL
      else Inl KeyError)"
| "CrumbType_of_name (JArr xs) = Inl TypeError"
| "CrumbType_of_name (JObj kvs) = Inl TypeError"
| "CrumbType_of_name _ = Inl KeyError"

text \<open>The construction of one \<^verbatim>\<open>Crumb\<close> in \<^verbatim>\<open>load\<close>, arguments in source order.\<close>

definition load_crumb :: "json \<Rightarrow> error + Crumb" where
  "load_crumb c_data =
     bind (subscript c_data ''crumb_id'') (\<lambda>j1. bind (as_str j1) (\<lambda>v1.
     bind (subscript c_data ''crumb_type'') (\<lambda>j2. bind (CrumbType_of_name j2) (\<lambda>v2.
     bind (subscript c_data ''content'') (\<lambda>j3. bind (as_str j3) (\<lambda>v3.
     bind (subscript c_data ''context'') (\<lambda>j4. bind (as_str j4) (\<lambda>v4.
     bind (subscript c_data ''visibility'') (\<lambda>j5. bind (as_str j5) (\<lambda>v5.
     bind (subscript c_data ''target_audience'') (\<lambda>j6. bind (as_str j6) (\<lambda>v6.
     bind (json_get c_data ''decay_time'' JNull) (\<lambda>j7. bind (as_opt_str j7) (\<lambda>v7.
     bind (json_get c_data ''chain_id'' JNull) (\<lambda>j8. bind (as_opt_str j8) (\<lambda>v8.
     bind (subscript c_data ''created_at'') (\<lambda>j9. bind (as_str j9) (\<lambda>v9.
       Inr \<lparr>crumb_id = v1, crumb_type = v2, content = v3, crumb_context = v4,
            crumb_visibility = v5, target_audience = v6, decay_time = v7,
            chain_id = v8, created_at = v9\<rparr>))))))))))))))))))"

definition load_chains :: "json \<Rightarrow> error + (string \<times> string list) list" where
  "load_chains j =
     bind (dict_items j)
       (map_result (\<lambda>(k, v). bind (as_str_list v) (\<lambda>ids. Inr (k, ids))))"

text \<open>
  \<^verbatim>\<open>CrumbTrail.load\<close> applied to the parsed snapshot. The trail is constructed first,
  so an id is drawn when the stored trail id is falsy, also if a later step raises.
\<close>

definition load :: "world \<Rightarrow> json \<Rightarrow> (error + CrumbTrail) \<times> world" where
  "load w data =
     (case subscript data ''trail_id'' of
        Inl e \<Rightarrow> (Inl e, w)
      | Inr tid \<Rightarrow>
          let (trail, w1) =
                (if truthy tid
                 then (case tid of JStr s \<Rightarrow> (Inr \<lparr>trail_id = s, crumbs = [], chains = []\<rparr>, w)
                       | _ \<Rightarrow> (Inl Unmodelled, w))
                 else (let (t0, w') = CrumbTrail_init w None in (Inr t0, w')))
          in (bind trail (\<lambda>t0.
              bind (subscript data ''crumbs'') (\<lambda>cs.
              bind (iter_items cs) (\<lambda>items.
              bind (map_result load_crumb items) (\<lambda>loaded.
              bind (json_get data ''chains'' (JObj [])) (\<lambda>ch.
              bind (load_chains ch) (\<lambda>chains'.
                Inr (t0\<lparr>crumbs := loaded, chains := chains'\<rparr>))))))),
              w1))"

section \<open>The system analysis\<close>

record SelfExamination =
  exam_id :: string
  assumptions_found :: "string list"
  blind_spots :: "string list"
  misuse_vectors :: "string list"
  creator_biases :: "string list"
  evolution_needs :: "string list"
  exam_timestamp :: string

record SystemAnalysis =
  analysis_id :: string
  system_name :: string
  frames :: "Frame list"
  masks :: "Mask list"
  spells :: "Spell list"
  prisons :: "Prison list"
  analysis_crumbs :: "Crumb list"
  influence_edges :: "InfluenceEdge list"
  self_examination :: "SelfExamination option"
  seeing_depth :: SeeingDepth
  analyzed_at :: string



section \<open>The collective aggregator\<close>

record CollectiveInsight =
  storage_path :: "string option"
  analyses :: "json list"
  frame_frequencies :: "(string \<times> int) list"
  mask_frequencies :: "(string \<times> int) list"
  spell_frequencies :: "(string \<times> int) list"
  prison_frequencies :: "(string \<times> int) list"
  total_analyses :: int

text \<open>
  What is found at the storage path: no file, a file that \<^verbatim>\<open>read_text\<close> or
  \<^verbatim>\<open>json.loads\<close> rejects, or a file that parses to a tree.
\<close>

datatype backing = NoFile | Unparsable | Snapshot json

definition empty_collective :: "string option \<Rightarrow> CollectiveInsight" where
  "empty_collective sp =
     \<lparr>storage_path = sp, analyses = [], frame_frequencies = [], mask_frequencies = [],
      spell_frequencies = [], prison_frequencies = [], total_analyses = 0\<rparr>"

fun as_counts :: "(string \<times> json) list \<Rightarrow> error + (string \<times> int) list" where
  "as_counts [] = Inr []"
| "as_counts ((k, JInt n) # kvs) =
     (case as_counts kvs of Inl e \<Rightarrow> Inl e | Inr d \<Rightarrow> Inr ((k, n) # d))"
| "as_counts ((k, _) # kvs) = Inl Unmodelled"

text \<open>
  One assignment \<^verbatim>\<open>self._x_frequencies = defaultdict(int, data.get(key, {}))\<close>
  of \<^verbatim>\<open>_load\<close>.
\<close>

definition load_frequencies :: "json \<Rightarrow> string \<Rightarrow> error + (string \<times> int) list" where
  "load_frequencies data key =
     bind (json_get data key (JObj [])) (\<lambda>v. bind (dict_items v) as_counts)"

text \<open>
  \<^verbatim>\<open>_load\<close>. The assignments run in source order inside one \<^verbatim>\<open>try\<close>; an
  exception ends them and is swallowed by \<^verbatim>\<open>except Exception: pass\<close>, and the
  attributes assigned before it keep their new values. The result is \<open>None\<close> when
  the snapshot is outside the typed model (\<open>Unmodelled\<close>).
\<close>

definition load_collective :: "CollectiveInsight \<Rightarrow> backing \<Rightarrow> CollectiveInsight option" where
  "load_collective c file =
     (if storage_path c = None then Some c
      else case file of
        NoFile \<Rightarrow> Some c
      | Unparsable \<Rightarrow> Some c
      | Snapshot data \<Rightarrow>
         (case json_get data ''total_analyses'' (JInt 0) of
            Inl e \<Rightarrow> Some c
          | Inr (JInt n) \<Rightarrow>
             (let c1 = c\<lparr>total_analyses := n\<rparr> in
              case load_frequencies data ''frame_frequencies'' of
                Inl Unmodelled \<Rightarrow> None | Inl e \<Rightarrow> Some c1
              | Inr ff \<Rightarrow>
             (let c2 = c1\<lparr>frame_frequencies := ff\<rparr> in
              case load_frequencies data ''mask_frequencies'' of
                Inl Unmodelled \<Rightarrow> None | Inl e \<Rightarrow> Some c2
              | Inr mf \<Rightarrow>
             (let c3 = c2\<lparr>mask_frequencies := mf\<rparr> in
              case load_frequencies data ''spell_frequencies'' of
                Inl Unmodelled \<Rightarrow> None | Inl e \<Rightarrow> Some c3
              | Inr sf \<Rightarrow>
             (let c4 = c3\<lparr>spell_frequencies := sf\<rparr> in
              case load_frequencies data ''prison_frequencies'' of
                Inl Unmodelled \<Rightarrow> None | Inl e \<Rightarrow> Some c4
              | Inr pf \<Rightarrow>
             (let c5 = c4\<lparr>prison_frequencies := pf\<rparr> in
              case json_get data ''analyses'' (JArr []) of
                Inl e \<Rightarrow> Some c5
              | Inr (JArr xs) \<Rightarrow> Some (c5\<lparr>analyses := xs\<rparr>)
              | Inr _ \<Rightarrow> None)))))
          | Inr _ \<Rightarrow> None))"

text \<open>
  \<^verbatim>\<open>CollectiveInsight.__init__\<close>: the empty state, then \<^verbatim>\<open>_load\<close> if a storage
  path is given and the file exists.
\<close>

definition CollectiveInsight_init :: "string option \<Rightarrow> backing \<Rightarrow> CollectiveInsight option" where
  "CollectiveInsight_init sp file =
     (let c = empty_collective sp
      in if sp \<noteq> None \<and> file \<noteq> NoFile then load_collective c file else Some c)"










section \<open>Derived notions used to state the properties\<close>

definition signal_density :: "string \<Rightarrow> string list \<Rightarrow> real" where
  "signal_density text_lower signals =
     real (length (filter (\<lambda>s. substring_in s text_lower) signals)) / real (length signals)"

definition density_in :: "('t \<times> string list) list \<Rightarrow> string \<Rightarrow> 't \<Rightarrow> real" where
  "density_in table text_lower t =
     (case map_of table t of Some signals \<Rightarrow> signal_density text_lower signals | None \<Rightarrow> 0)"

definition ranked_by :: "('t \<Rightarrow> real) \<Rightarrow> 't list \<Rightarrow> 't list \<Rightarrow> bool" where
  "ranked_by key found out \<longleftrightarrow>
     sorted (rev (map key out))
     \<and> (\<forall>k. filter (\<lambda>t. key t = k) out = filter (\<lambda>t. key t = k) found)"

definition world0 :: world where
  "world0 = \<lparr>uuid_src = (\<lambda>n. n * 2 ^ 80),
             clock_src = (\<lambda>n. ''2024-01-01T00:00:0'' @ [hexdigit n] @ ''+00:00''),
             uuid_calls = 0, clock_calls = 0\<rparr>"

definition types_found :: "('t \<times> string list) list \<Rightarrow> string \<Rightarrow> 't list" where
  "types_found table text_lower =
     map fst (filter (\<lambda>(t, signals). filter (\<lambda>s. substring_in s text_lower) signals \<noteq> []) table)"


definition frame_signals_in :: "string \<Rightarrow> string list" where
  "frame_signals_in s = filter (\<lambda>k. substring_in k s) (concat (map snd FRAME_SIGNALS))"

text \<open>
  For every table entry with a match, in table order: the type, the number of matched
  signals and the size of the entry's signal list.
\<close>

definition match_counts :: "('t \<times> string list) list \<Rightarrow> string \<Rightarrow> ('t \<times> nat \<times> nat) list" where
  "match_counts table text_lower =
     map (\<lambda>(t, signals). (t, length (filter (\<lambda>s. substring_in s text_lower) signals), length signals))
       (filter (\<lambda>(t, signals). filter (\<lambda>s. substring_in s text_lower) signals \<noteq> []) table)"

text \<open>A trail with one record, built through the interface.\<close>

definition trail0 :: CrumbTrail where
  "trail0 =
     fst (snd (drop_crumb world0 (fst (CrumbTrail_init world0 (Some ''trail-1'')))
        ''Who wrote these rules?'' QUESTION ''Generated from frame detection''
        ''hidden'' ''seekers'' None))"





text \<open>
  The quantities of \<^verbatim>\<open>find_puppeteers\<close> for an actor: the weights of its outgoing
  and of its incoming edges accumulated in floating point in the order of the edge list,
  the number of its invisible outgoing edges, the float value of
  \<^verbatim>\<open>out / max(in, 0.01) * (1 + hidden)\<close>, and the entry reported for a qualifying
  actor. \<open>exact_out\<close> and \<open>exact_in\<close> are the sums in exact arithmetic.
\<close>

definition out_weight :: "InfluenceGraph \<Rightarrow> string \<Rightarrow> real" where
  "out_weight g a =
     foldl (\<lambda>s e. double (s + weight e)) 0 (filter (\<lambda>e. source e = a) (edges g))"

definition in_weight :: "InfluenceGraph \<Rightarrow> string \<Rightarrow> real" where
  "in_weight g a =
     foldl (\<lambda>s e. double (s + weight e)) 0 (filter (\<lambda>e. target e = a) (edges g))"

definition exact_out :: "InfluenceGraph \<Rightarrow> string \<Rightarrow> real" where
  "exact_out g a = sum_list (map weight (filter (\<lambda>e. source e = a) (edges g)))"

definition exact_in :: "InfluenceGraph \<Rightarrow> string \<Rightarrow> real" where
  "exact_in g a = sum_list (map weight (filter (\<lambda>e. target e = a) (edges g)))"

definition hidden_out :: "InfluenceGraph \<Rightarrow> string \<Rightarrow> nat" where
  "hidden_out g a = length (filter (\<lambda>e. source e = a \<and> \<not> visible e) (edges g))"

definition qualifies :: "InfluenceGraph \<Rightarrow> string \<Rightarrow> bool" where
  "qualifies g a \<longleftrightarrow> in_weight g a < out_weight g a \<and> 0 < hidden_out g a"

definition raw_score :: "InfluenceGraph \<Rightarrow> string \<Rightarrow> real" where
  "raw_score g a =
     double (double (out_weight g a / max (in_weight g a) (double (1/100)))
             * double (real (1 + hidden_out g a)))"

definition puppeteer_of :: "InfluenceGraph \<Rightarrow> string \<Rightarrow> Puppeteer" where
  "puppeteer_of g a =
     \<lparr>puppeteer_actor = a, outgoing_influence = float_round3 (out_weight g a),
      incoming_influence = float_round3 (in_weight g a), hidden_connections = hidden_out g a,
      puppet_score = float_round3 (raw_score g a)\<rparr>"

text \<open>
  The graphs on which \<open>double\<close> is the arithmetic of the program: every weight is a
  binary64 value of magnitude at most \<open>2\<^sup>9\<^sup>0\<^sup>0\<close> and there are at most \<open>2\<^sup>4\<^sup>0\<close> edges, so
  that no sum, quotient or product of \<^verbatim>\<open>find_puppeteers\<close> reaches \<open>2\<^sup>1\<^sup>0\<^sup>2\<^sup>4\<close> and the
  count \<^verbatim>\<open>1 + hidden\<close> is converted exactly.
\<close>

definition float_graph :: "InfluenceGraph \<Rightarrow> bool" where
  "float_graph g \<longleftrightarrow>
     list_all (\<lambda>e. double (weight e) = weight e \<and> \<bar>weight e\<bar> \<le> 2 ^ 900) (edges g)
     \<and> length (edges g) \<le> 2 ^ 40"

definition mask_of :: "string \<Rightarrow> Mask" where
  "mask_of a = \<lparr>mask_id = ''000000000000'', actor = a, mask_type = AUTHORITY,
                formal_role = ''board'', performance = ''Signals: board''\<rparr>"

text \<open>
  Two graphs on the actors \<open>A\<close> and \<open>B\<close>. In \<open>graph1\<close> the edge \<open>A \<rightarrow> B\<close> has weight
  \<open>1 + 2\<^sup>-\<^sup>1\<^sup>0\<close> and is invisible, and \<open>B \<rightarrow> A\<close> has weight 1. In \<open>graph2\<close> there
  are two edges \<open>A \<rightarrow> B\<close>, of weight 1, invisible, and of weight \<open>2\<^sup>-\<^sup>5\<^sup>3\<close>, and an edge
  \<open>B \<rightarrow> A\<close> of weight 1.
\<close>

definition graph1 :: InfluenceGraph where
  "graph1 =
     add_edge
       (add_edge (add_actor (add_actor InfluenceGraph_init (mask_of ''A'')) (mask_of ''B''))
          \<lparr>source = ''A'', target = ''B'', relation = ''funds'', weight = 1 + 1 / 2 ^ 10,
           visible = False, mask_used = None\<rparr>)
       \<lparr>source = ''B'', target = ''A'', relation = ''influences'', weight = 1,
        visible = True, mask_used = None\<rparr>"

definition graph2 :: InfluenceGraph where
  "graph2 =
     add_edge
       (add_edge
          (add_edge (add_actor (add_actor InfluenceGraph_init (mask_of ''A'')) (mask_of ''B''))
             \<lparr>source = ''A'', target = ''B'', relation = ''funds'', weight = 1,
              visible = False, mask_used = None\<rparr>)
          \<lparr>source = ''A'', target = ''B'', relation = ''influences'', weight = 1 / 2 ^ 53,
           visible = True, mask_used = None\<rparr>)
       \<lparr>source = ''B'', target = ''A'', relation = ''influences'', weight = 1,
        visible = True, mask_used = None\<rparr>"

text \<open>The spells found in two short texts: three subtypes, and one.\<close>

definition spells3 :: "Spell list" where
  "spells3 =
     fst (analyze_spells world0
            ''began origin genesis founded better growing forward improving'')"

definition spells1 :: "Spell list" where
  "spells1 = fst (analyze_spells world0 ''founded'')"

text \<open>A snapshot that parses but whose frame counters are not a dict.\<close>

definition corrupt_snapshot :: json where
  "corrupt_snapshot = JObj [(''total_analyses'', JInt 7), (''frame_frequencies'', JInt 3)]"


text \<open>A finding without what was drawn from the environment.\<close>

definition blank_frame :: "Frame \<Rightarrow> Frame" where
  "blank_frame f = f\<lparr>frame_id := [], detected_at := []\<rparr>"

definition blank_mask :: "Mask \<Rightarrow> Mask" where
  "blank_mask m = m\<lparr>mask_id := []\<rparr>"

definition blank_spell :: "Spell \<Rightarrow> Spell" where
  "blank_spell s = s\<lparr>spell_id := []\<rparr>"

definition blank_prison :: "Prison \<Rightarrow> Prison" where
  "blank_prison p = p\<lparr>prison_id := []\<rparr>"

text \<open>The actor label that \<^verbatim>\<open>identify_masks\<close> synthesizes for a mask type.\<close>

definition actor_label :: "MaskType \<Rightarrow> string" where
  "actor_label mt = ''[Actor performing '' @ MaskType_name mt @ '']''"



section \<open>Properties of the detectors\<close>

lemma set_sort_reverse: "set (sort_reverse key xs) = set xs"
  by (simp add: sort_reverse_def)

lemma mset_sort_reverse: "mset (sort_reverse key xs) = mset xs"
  by (simp add: sort_reverse_def)

lemma sorted_sort_reverse: "sorted (rev (map key (sort_reverse key xs)))"
  by (simp add: sort_reverse_def rev_map)

lemma filter_sort_reverse:
  "filter (\<lambda>y. key y = k) (sort_reverse key xs) = filter (\<lambda>y. key y = k) xs"
  by (simp add: sort_reverse_def rev_filter [symmetric] sort_key_stable)

lemma ranked_projection:
  fixes results :: "(real \<times> 'a) list" and ty :: "'a \<Rightarrow> 't" and key :: "'t \<Rightarrow> real"
  assumes keys: "\<forall>p \<in> set results. fst p = key (ty (snd p))"
  defines "out \<equiv> map snd (sort_reverse fst results)"
  shows "sorted (rev (map (\<lambda>x. key (ty x)) out))"
    and "filter (\<lambda>t. key t = k) (map ty out) = filter (\<lambda>t. key t = k) (map (\<lambda>p. ty (snd p)) results)"
    and "mset (map ty out) = mset (map (\<lambda>p. ty (snd p)) results)"
proof -
  let ?S = "sort_reverse fst results"
  have S: "\<forall>p \<in> set ?S. fst p = key (ty (snd p))"
    using keys by (simp add: set_sort_reverse)
  have "map (\<lambda>x. key (ty x)) out = map fst ?S"
    using S by (simp add: out_def)
  then show "sorted (rev (map (\<lambda>x. key (ty x)) out))"
    by (simp add: sorted_sort_reverse)
  have "filter (\<lambda>t. key t = k) (map ty out)
        = map (\<lambda>p. ty (snd p)) (filter (\<lambda>p. key (ty (snd p)) = k) ?S)"
    by (simp add: out_def filter_map comp_def)
  also have "filter (\<lambda>p. key (ty (snd p)) = k) ?S = filter (\<lambda>p. fst p = k) ?S"
    using S by (intro filter_cong) auto
  also have "\<dots> = filter (\<lambda>p. fst p = k) results"
    by (rule filter_sort_reverse)
  also have "\<dots> = filter (\<lambda>p. key (ty (snd p)) = k) results"
    using keys by (intro filter_cong) auto
  finally show "filter (\<lambda>t. key t = k) (map ty out)
        = filter (\<lambda>t. key t = k) (map (\<lambda>p. ty (snd p)) results)"
    by (simp add: filter_map comp_def)
  have "mset (map ty out) = image_mset (\<lambda>p. ty (snd p)) (mset ?S)"
    by (simp add: out_def multiset.map_comp comp_def)
  then show "mset (map ty out) = mset (map (\<lambda>p. ty (snd p)) results)"
    by (simp add: mset_sort_reverse)
qed

lemma detect_frames_loop_types:
  "map (\<lambda>p. frame_type (snd p)) (fst (detect_frames_loop tlow table w)) = types_found table tlow"
  by (induction table arbitrary: w)
     (auto simp: types_found_def Let_def split_beta)

lemma detect_frames_loop_fields:
  "\<forall>p \<in> set (fst (detect_frames_loop tlow table w)).
     \<exists>signals. (frame_type (snd p), signals) \<in> set table
        \<and> fst p = signal_density tlow signals
        \<and> strength (snd p) = min (fst p * 2) 1
        \<and> frame_visibility (snd p) = 1 - strength (snd p)"
proof (induction table arbitrary: w)
  case Nil
  show ?case by simp
next
  case (Cons e table)
  obtain ft signals where e: "e = (ft, signals)" by (cases e)
  show ?case
    using Cons.IH
    by (simp add: e Let_def split_beta signal_density_def) blast
qed


lemma identify_masks_loop_types:
  "map (\<lambda>p. mask_type (snd p)) (fst (identify_masks_loop tlow table g w)) = types_found table tlow"
  by (induction table arbitrary: g w)
     (auto simp: types_found_def Let_def split_beta)

lemma identify_masks_loop_fields:
  "\<forall>p \<in> set (fst (identify_masks_loop tlow table g w)).
     \<exists>signals. (mask_type (snd p), signals) \<in> set table \<and> fst p = signal_density tlow signals"
proof (induction table arbitrary: g w)
  case Nil
  show ?case by simp
next
  case (Cons e table)
  obtain mt signals where e: "e = (mt, signals)" by (cases e)
  show ?case
    using Cons.IH
    by (simp add: e Let_def split_beta signal_density_def) blast
qed

lemma analyze_spells_loop_types:
  "map (\<lambda>p. spell_type (snd p)) (fst (analyze_spells_loop tlow table w)) = types_found table tlow"
  by (induction table arbitrary: w)
     (auto simp: types_found_def Let_def split_beta)

lemma analyze_spells_loop_fields:
  "\<forall>p \<in> set (fst (analyze_spells_loop tlow table w)).
     \<exists>signals. (spell_type (snd p), signals) \<in> set table
        \<and> reach (snd p) = signal_density tlow signals
        \<and> potency (snd p) = min (reach (snd p) * 2.5) 1
        \<and> fst p = potency (snd p)"
proof (induction table arbitrary: w)
  case Nil
  show ?case by simp
next
  case (Cons e table)
  obtain st signals where e: "e = (st, signals)" by (cases e)
  show ?case
    using Cons.IH
    by (simp add: e Let_def split_beta signal_density_def) blast
qed

lemma map_prisons_loop_types:
  "map (\<lambda>p. prison_type (snd p)) (fst (map_prisons_loop tlow table w)) = types_found table tlow"
  by (induction table arbitrary: w)
     (auto simp: types_found_def Let_def split_beta)

lemma map_prisons_loop_fields:
  "\<forall>p \<in> set (fst (map_prisons_loop tlow table w)).
     \<exists>signals. (prison_type (snd p), signals) \<in> set table
        \<and> elegance (snd p) = min (signal_density tlow signals * 2) 1
        \<and> fst p = elegance (snd p)"
proof (induction table arbitrary: w)
  case Nil
  show ?case by simp
next
  case (Cons e table)
  obtain pt signals where e: "e = (pt, signals)" by (cases e)
  show ?case
    using Cons.IH
    by (simp add: e Let_def split_beta signal_density_def) blast
qed

lemma density_in_member:
  "distinct (map fst table) \<Longrightarrow> (t, signals) \<in> set table
     \<Longrightarrow> density_in table tlow t = signal_density tlow signals"
  by (simp add: density_in_def)

lemma distinct_types_found: "distinct (map fst table) \<Longrightarrow> distinct (types_found table tlow)"
  by (simp add: types_found_def distinct_map_filter)

lemma length_types_found: "length (types_found table tlow) \<le> length table"
  by (simp add: types_found_def)

lemma distinct_FRAME_SIGNALS: "distinct (map fst FRAME_SIGNALS)"
  by (simp add: FRAME_SIGNALS_def)

lemma distinct_MASK_SIGNALS: "distinct (map fst MASK_SIGNALS)"
  by (simp add: MASK_SIGNALS_def)

lemma distinct_SPELL_SIGNALS: "distinct (map fst SPELL_SIGNALS)"
  by (simp add: SPELL_SIGNALS_def)

lemma distinct_PRISON_SIGNALS: "distinct (map fst PRISON_SIGNALS)"
  by (simp add: PRISON_SIGNALS_def)

lemma length_SIGNALS:
  "length FRAME_SIGNALS = 8" "length MASK_SIGNALS = 8"
  "length SPELL_SIGNALS = 8" "length PRISON_SIGNALS = 8"
  by (simp_all add: FRAME_SIGNALS_def MASK_SIGNALS_def SPELL_SIGNALS_def PRISON_SIGNALS_def)

lemma ranked_byI:
  fixes results :: "(real \<times> 'a) list"
  assumes "\<forall>p \<in> set results. fst p = key (ty (snd p))"
    and "map (\<lambda>p. ty (snd p)) results = found"
  shows "ranked_by key found (map ty (map snd (sort_reverse fst results)))"
  unfolding ranked_by_def
  using ranked_projection(1)[where key=key and ty=ty, OF assms(1)]
    ranked_projection(2)[where key=key and ty=ty, OF assms(1)] assms(2)
  by (simp add: comp_def)

lemma frames_keys:
  "\<forall>p \<in> set (fst (detect_frames_loop tlow FRAME_SIGNALS w)).
     fst p = density_in FRAME_SIGNALS tlow (frame_type (snd p))"
  using detect_frames_loop_fields[of tlow FRAME_SIGNALS w]
  by (auto simp: density_in_member[OF distinct_FRAME_SIGNALS])

lemma masks_keys:
  "\<forall>p \<in> set (fst (identify_masks_loop tlow MASK_SIGNALS g w)).
     fst p = density_in MASK_SIGNALS tlow (mask_type (snd p))"
  using identify_masks_loop_fields[of tlow MASK_SIGNALS g w]
  by (auto simp: density_in_member[OF distinct_MASK_SIGNALS])

lemma spells_keys:
  "\<forall>p \<in> set (fst (analyze_spells_loop tlow SPELL_SIGNALS w)).
     fst p = min (density_in SPELL_SIGNALS tlow (spell_type (snd p)) * 2.5) 1"
  using analyze_spells_loop_fields[of tlow SPELL_SIGNALS w]
  by (auto simp: density_in_member[OF distinct_SPELL_SIGNALS])

lemma prisons_keys:
  "\<forall>p \<in> set (fst (map_prisons_loop tlow PRISON_SIGNALS w)).
     fst p = min (density_in PRISON_SIGNALS tlow (prison_type (snd p)) * 2) 1"
  using map_prisons_loop_fields[of tlow PRISON_SIGNALS w]
  by (auto simp: density_in_member[OF distinct_PRISON_SIGNALS])

lemma fst_detect_frames:
  "fst (detect_frames w text context)
     = map snd (sort_reverse fst
         (fst (detect_frames_loop (lower text @ '' '' @ lower context) FRAME_SIGNALS w)))"
  by (simp add: detect_frames_def Let_def split_beta)

lemma fst_identify_masks:
  "fst (InfluenceGraph_identify_masks w g text)
     = map snd (sort_reverse fst (fst (identify_masks_loop (lower text) MASK_SIGNALS g w)))"
  by (simp add: InfluenceGraph_identify_masks_def Let_def split_beta)

lemma fst_analyze_spells:
  "fst (analyze_spells w text)
     = map snd (sort_reverse fst (fst (analyze_spells_loop (lower text) SPELL_SIGNALS w)))"
  by (simp add: analyze_spells_def Let_def split_beta)

lemma fst_map_prisons:
  "fst (map_prisons w text)
     = map snd (sort_reverse fst (fst (map_prisons_loop (lower text) PRISON_SIGNALS w)))"
  by (simp add: map_prisons_def Let_def split_beta)

text \<open>
  Claim C2, as amended. Each detector returns its findings in descending order of the key
  it sorts by, and findings with equal keys keep the order of the signal table: the key is
  the density for \<^verbatim>\<open>detect_frames\<close> and \<^verbatim>\<open>identify_masks\<close>, the potency
  \<open>min (density * 2.5) 1\<close> for \<^verbatim>\<open>analyze_spells\<close> and the elegance
  \<open>min (density * 2) 1\<close> for \<^verbatim>\<open>map_prisons\<close>.
\<close>

theorem detectors_ranked_by_sort_key:
  "ranked_by (density_in FRAME_SIGNALS (lower text @ '' '' @ lower context))
       (types_found FRAME_SIGNALS (lower text @ '' '' @ lower context))
       (map frame_type (fst (detect_frames w text context)))
   \<and> ranked_by (density_in MASK_SIGNALS (lower text))
       (types_found MASK_SIGNALS (lower text))
       (map mask_type (fst (InfluenceGraph_identify_masks w g text)))
   \<and> ranked_by (\<lambda>t. min (density_in SPELL_SIGNALS (lower text) t * 2.5) 1)
       (types_found SPELL_SIGNALS (lower text))
       (map spell_type (fst (analyze_spells w text)))
   \<and> ranked_by (\<lambda>t. min (density_in PRISON_SIGNALS (lower text) t * 2) 1)
       (types_found PRISON_SIGNALS (lower text))
       (map prison_type (fst (map_prisons w text)))"
  unfolding fst_detect_frames fst_identify_masks fst_analyze_spells fst_map_prisons
  by (intro conjI ranked_byI frames_keys masks_keys spells_keys prisons_keys
        detect_frames_loop_types identify_masks_loop_types analyze_spells_loop_types
        map_prisons_loop_types)

lemma types_of_sorted:
  fixes results :: "(real \<times> 'a) list"
  shows "mset (map ty (map snd (sort_reverse fst results))) = mset (map (\<lambda>p. ty (snd p)) results)"
proof -
  have "map ty (map snd (sort_reverse fst results)) = map (\<lambda>p. ty (snd p)) (sort_reverse fst results)"
    by simp
  then show ?thesis
    by (metis mset_map mset_sort_reverse)
qed

lemma one_per_type:
  fixes results :: "(real \<times> 'a) list"
  assumes "map (\<lambda>p. ty (snd p)) results = types_found table tlow"
    and "distinct (map fst table)" and "length table = 8"
  shows "distinct (map ty (map snd (sort_reverse fst results)))
         \<and> length (map snd (sort_reverse fst results)) \<le> 8"
proof -
  have "mset (map ty (map snd (sort_reverse fst results))) = mset (types_found table tlow)"
    using types_of_sorted[of ty results] assms(1) by simp
  then have "distinct (map ty (map snd (sort_reverse fst results)))"
    using distinct_types_found[OF assms(2), of tlow] by (metis mset_eq_imp_distinct_iff)
  moreover have "length (map snd (sort_reverse fst results)) = length (types_found table tlow)"
    using assms(1) by (metis length_map mset_sort_reverse size_mset)
  ultimately show ?thesis
    using length_types_found[of table tlow] assms(3) by simp
qed

text \<open>
  Claim C9. Every detector returns at most one finding per subtype: the type tags of the
  returned findings are pairwise distinct and there are at most 8 findings, the number of
  entries of each signal table.
\<close>

theorem detectors_one_finding_per_subtype:
  "distinct (map frame_type (fst (detect_frames w text context)))
   \<and> length (fst (detect_frames w text context)) \<le> 8
   \<and> distinct (map mask_type (fst (InfluenceGraph_identify_masks w g text)))
   \<and> length (fst (InfluenceGraph_identify_masks w g text)) \<le> 8
   \<and> distinct (map spell_type (fst (analyze_spells w text)))
   \<and> length (fst (analyze_spells w text)) \<le> 8
   \<and> distinct (map prison_type (fst (map_prisons w text)))
   \<and> length (fst (map_prisons w text)) \<le> 8"
  unfolding fst_detect_frames fst_identify_masks fst_analyze_spells fst_map_prisons
  using one_per_type[OF detect_frames_loop_types distinct_FRAME_SIGNALS length_SIGNALS(1)]
    one_per_type[OF identify_masks_loop_types distinct_MASK_SIGNALS length_SIGNALS(2)]
    one_per_type[OF analyze_spells_loop_types distinct_SPELL_SIGNALS length_SIGNALS(3)]
    one_per_type[OF map_prisons_loop_types distinct_PRISON_SIGNALS length_SIGNALS(4)]
  by blast

lemma list_all_sorted:
  fixes results :: "(real \<times> 'a) list"
  assumes "\<forall>p \<in> set results. P (snd p)"
  shows "list_all P (map snd (sort_reverse fst results))"
  using assms by (simp add: list_all_iff set_sort_reverse)

text \<open>
  Claim C1, as amended. Every frame returned by \<^verbatim>\<open>detect_frames\<close> has
  \<open>visibility = 1 - strength\<close>. Every spell returned by \<^verbatim>\<open>analyze_spells\<close> has its
  reach equal to the density of its subtype, and \<open>potency = min (reach * 2.5) 1\<close>.
\<close>

theorem secondary_scores:
  "list_all (\<lambda>f. frame_visibility f = 1 - strength f) (fst (detect_frames w text context))
   \<and> list_all (\<lambda>s. reach s = density_in SPELL_SIGNALS (lower text) (spell_type s)
                    \<and> potency s = min (reach s * 2.5) 1)
        (fst (analyze_spells w text))"
proof -
  have "\<forall>p \<in> set (fst (detect_frames_loop (lower text @ '' '' @ lower context) FRAME_SIGNALS w)).
          frame_visibility (snd p) = 1 - strength (snd p)"
    using detect_frames_loop_fields by blast
  moreover have "\<forall>p \<in> set (fst (analyze_spells_loop (lower text) SPELL_SIGNALS w)).
          reach (snd p) = density_in SPELL_SIGNALS (lower text) (spell_type (snd p))
          \<and> potency (snd p) = min (reach (snd p) * 2.5) 1"
    using analyze_spells_loop_fields[of "lower text" SPELL_SIGNALS w]
    by (auto simp: density_in_member[OF distinct_SPELL_SIGNALS])
  ultimately show ?thesis
    unfolding fst_detect_frames fst_analyze_spells
    by (intro conjI list_all_sorted)
qed

text \<open>
  Claim C1 as stated fails for spells: on the text \<^verbatim>\<open>founded\<close> the single spell has
  potency \<open>1/4\<close> and reach \<open>1/10\<close>, not \<open>1 - 1/4\<close>.
\<close>

theorem secondary_scores_counterexample:
  "\<not> list_all (\<lambda>s. reach s = 1 - potency s) (fst (analyze_spells world0 ''founded''))"
  by (simp add: analyze_spells_def SPELL_SIGNALS_def lower_def lower_char_def sort_reverse_def
        Let_def split_beta)

lemma map_insort_key: "map f (insort_key (\<lambda>x. k (f x)) x xs) = insort_key k (f x) (map f xs)"
  by (induction xs) simp_all

lemma map_sort_key: "map f (sort_key (\<lambda>x. k (f x)) xs) = sort_key k (map f xs)"
  by (induction xs) (simp_all add: map_insort_key)

lemma map_sort_reverse: "map f (sort_reverse (\<lambda>x. k (f x)) xs) = sort_reverse k (map f xs)"
  by (simp add: sort_reverse_def rev_map [symmetric] map_sort_key)

lemma analyze_spells_loop_scores:
  "map (\<lambda>p. (fst p, spell_type (snd p), potency (snd p), reach (snd p)))
       (fst (analyze_spells_loop tlow table w))
   = map (\<lambda>(t, m, n). (min (real m / real n * 2.5) 1, t, min (real m / real n * 2.5) 1, real m / real n))
       (match_counts table tlow)"
  by (induction table arbitrary: w)
     (auto simp: match_counts_def Let_def split_beta)

lemma analyze_spells_scores:
  "map (\<lambda>s. (spell_type s, potency s, reach s)) (fst (analyze_spells w text))
   = map snd (sort_reverse fst
       (map (\<lambda>(t, m, n). (min (real m / real n * 2.5) 1, t, min (real m / real n * 2.5) 1, real m / real n))
          (match_counts SPELL_SIGNALS (lower text))))"
proof -
  let ?h = "\<lambda>p. (fst p, spell_type (snd p), potency (snd p), reach (snd p))"
  let ?r = "fst (analyze_spells_loop (lower text) SPELL_SIGNALS w)"
  have "map (\<lambda>s. (spell_type s, potency s, reach s)) (fst (analyze_spells w text))
        = map snd (map ?h (sort_reverse (\<lambda>p. fst (?h p)) ?r))"
    by (simp add: fst_analyze_spells comp_def)
  also have "map ?h (sort_reverse (\<lambda>p. fst (?h p)) ?r) = sort_reverse fst (map ?h ?r)"
    by (rule map_sort_reverse)
  finally show ?thesis
    by (simp only: analyze_spells_loop_scores)
qed

lemma spells3_scores:
  "map (\<lambda>s. (spell_type s, potency s, reach s)) spells3
     = [(ORIGIN_MYTH, 1, 2/5), (PROGRESS_NARRATIVE, 1, 4/9), (BINARY_SPELL, 5/18, 1/9)]"
proof -
  have m: "match_counts SPELL_SIGNALS
             (lower ''began origin genesis founded better growing forward improving'')
           = [(ORIGIN_MYTH, 4, 10), (PROGRESS_NARRATIVE, 4, 9), (BINARY_SPELL, 1, 9)]"
    by code_simp
  show ?thesis
    unfolding spells3_def analyze_spells_scores m by (simp add: sort_reverse_def)
qed

lemma spells1_scores:
  "map (\<lambda>s. (spell_type s, potency s, reach s)) spells1 = [(ORIGIN_MYTH, 1/4, 1/10)]"
proof -
  have m: "match_counts SPELL_SIGNALS (lower ''founded'') = [(ORIGIN_MYTH, 1, 10)]"
    by code_simp
  show ?thesis
    unfolding spells1_def analyze_spells_scores m by (simp add: sort_reverse_def)
qed

text \<open>
  Claim C2 as stated fails for \<^verbatim>\<open>analyze_spells\<close>, which sorts by the capped potency.
  On the text below ORIGIN_MYTH (density \<open>2/5\<close>) and PROGRESS_NARRATIVE (density \<open>4/9\<close>)
  both have potency 1 and stay in table order, so the densities of the result, which the
  spells carry as their reach, are \<open>2/5, 4/9, 1/9\<close>: not descending.
\<close>

theorem ranking_counterexample:
  "\<not> sorted (rev (map reach
       (fst (analyze_spells world0
          ''began origin genesis founded better growing forward improving''))))"
proof -
  have "map (\<lambda>x. snd (snd x)) (map (\<lambda>s. (spell_type s, potency s, reach s)) spells3)
        = [2/5, 4/9, 1/9]"
    by (simp only: spells3_scores list.map snd_conv)
  then have "map reach spells3 = [2/5, 4/9, 1/9]"
    by (simp add: comp_def)
  then show ?thesis
    unfolding spells3_def by (simp del: sorted_wrt.simps add: sorted_wrt2_simps)
qed

lemma detect_frames_empty_iff:
  "fst (detect_frames w text context) = []
     \<longleftrightarrow> types_found FRAME_SIGNALS (lower text @ '' '' @ lower context) = []"
proof -
  have "length (fst (detect_frames w text context))
        = length (types_found FRAME_SIGNALS (lower text @ '' '' @ lower context))"
    unfolding fst_detect_frames
    by (metis detect_frames_loop_types length_map mset_sort_reverse size_mset)
  then show ?thesis by (metis length_0_conv)
qed

text \<open>
  Claim C10. There are a text and a context, neither of which contains a keyword of the
  frame table (as given or lower-cased), so that \<^verbatim>\<open>detect_frames\<close> finds nothing in
  either alone, but \<^verbatim>\<open>detect_frames(text, context)\<close> is not empty: the keyword
  \<^verbatim>\<open>common sense\<close> matches across the junction of \<^verbatim>\<open>common\<close> and \<^verbatim>\<open>sense\<close>.
\<close>

theorem keyword_across_junction:
  "\<exists>text context.
      frame_signals_in text = [] \<and> frame_signals_in (lower text) = []
    \<and> frame_signals_in context = [] \<and> frame_signals_in (lower context) = []
    \<and> fst (detect_frames w text []) = [] \<and> fst (detect_frames w context []) = []
    \<and> fst (detect_frames w text context) \<noteq> []"
proof -
  have 1: "frame_signals_in ''common'' = []" by code_simp
  have 2: "frame_signals_in (lower ''common'') = []" by code_simp
  have 3: "frame_signals_in ''sense'' = []" by code_simp
  have 4: "frame_signals_in (lower ''sense'') = []" by code_simp
  have 5: "types_found FRAME_SIGNALS (lower ''common'' @ '' '' @ lower []) = []" by code_simp
  have 6: "types_found FRAME_SIGNALS (lower ''sense'' @ '' '' @ lower []) = []" by code_simp
  have 7: "types_found FRAME_SIGNALS (lower ''common'' @ '' '' @ lower ''sense'') \<noteq> []" by code_simp
  have 8: "fst (detect_frames w ''common'' []) = []"
    using 5 by (simp add: detect_frames_empty_iff)
  have 9: "fst (detect_frames w ''sense'' []) = []"
    using 6 by (simp add: detect_frames_empty_iff)
  have 10: "fst (detect_frames w ''common'' ''sense'') \<noteq> []"
    using 7 by (simp add: detect_frames_empty_iff)
  show ?thesis
    using 1 2 3 4 8 9 10 by blast
qed


section \<open>The crumb trail: persist and load\<close>

lemma length_hex_digits: "length (hex_digits k n) = k"
  by (induction k n rule: hex_digits.induct) simp_all

lemma CrumbTrail_init_trail_id: "trail_id (fst (CrumbTrail_init w tid)) \<noteq> []"
proof -
  have "length (take 16 (hex_digits 32 n)) = 16" for n
    by (simp add: length_hex_digits)
  then have "take 16 (hex_digits 32 n) \<noteq> []" for n
    by (metis length_0_conv zero_neq_numeral)
  then show ?thesis
    by (auto simp: CrumbTrail_init_def uuid4_hex_def Let_def split: option.splits)
qed

lemma drop_crumb_trail_id:
  "trail_id (fst (snd (drop_crumb w t c ct cx v ta ch))) = trail_id t"
  by (simp add: drop_crumb_def Let_def split_beta)

lemma CrumbType_of_name_name: "CrumbType_of_name (JStr (CrumbType_name ct)) = Inr ct"
  by (cases ct) simp_all

lemma as_opt_str_opt_json: "as_opt_str (opt_json x) = Inr x"
  by (cases x) (simp_all add: opt_json_def)

lemma load_crumb_to_dict: "load_crumb (Crumb_to_dict c) = Inr c"
  by (simp add: load_crumb_def Crumb_to_dict_def bind_def CrumbType_of_name_name
        as_opt_str_opt_json del: CrumbType_of_name.simps)

lemma map_result_load_crumb: "map_result load_crumb (map Crumb_to_dict cs) = Inr cs"
  by (induction cs) (simp_all add: load_crumb_to_dict bind_def)

lemma as_str_list_JStr: "as_str_list (JArr (map JStr ids)) = Inr ids"
  by (induction ids) simp_all

lemma load_chains_roundtrip:
  "load_chains (JObj (map (\<lambda>(k, ids). (k, JArr (map JStr ids))) ch)) = Inr ch"
proof -
  have "map_result (\<lambda>(k, v). bind (as_str_list v) (\<lambda>ids. Inr (k, ids)))
          (map (\<lambda>(k, ids). (k, JArr (map JStr ids))) ch) = Inr ch"
    by (induction ch) (auto simp: bind_def as_str_list_JStr)
  then show ?thesis by (simp add: load_chains_def bind_def)
qed

text \<open>
  Claim C3. For every trail store whose trail id is not empty, which
  \<^verbatim>\<open>CrumbTrail.__init__\<close> establishes and \<^verbatim>\<open>drop_crumb\<close> keeps, loading the snapshot
  written by \<^verbatim>\<open>persist\<close> succeeds and yields the same store: the same trail id, the
  same list of records with every field of every record, and the same chain index. No id
  is drawn from the environment.
\<close>

theorem persist_load_roundtrip:
  assumes "trail_id t \<noteq> []"
  shows "load w' (fst (persist w t)) = (Inr t, w')"
  using assms
  by (simp add: load_def persist_def Let_def split_beta bind_def map_result_load_crumb
        load_chains_roundtrip)

theorem persist_load_roundtrip_witness:
  "trail_id trail0 \<noteq> [] \<and> length (crumbs trail0) = 1
   \<and> load world0 (fst (persist world0 trail0)) = (Inr trail0, world0)"
proof -
  have 1: "trail_id trail0 = ''trail-1''"
    by (simp add: trail0_def drop_crumb_trail_id CrumbTrail_init_def)
  have 2: "length (crumbs trail0) = 1"
    by (simp add: trail0_def drop_crumb_def CrumbTrail_init_def Let_def split_beta)
  have 3: "trail_id trail0 \<noteq> []" using 1 by simp
  show ?thesis using 2 3 persist_load_roundtrip[OF 3, of world0 world0] by simp
qed


section \<open>Binary floating point\<close>

text \<open>The value of \<open>double\<close> in the binade of \<open>x\<close>, and some values.\<close>

lemma pow2_pos: "0 < pow2 k"
  by (simp add: pow2_def)

lemma pow2_powr: "pow2 k = 2 powr (real_of_int k)"
proof (cases "0 \<le> k")
  case True
  then obtain n where k: "k = int n" using nonneg_int_cases by blast
  have "(2::real) powr real n = 2 ^ n" by (rule powr_realpow) simp
  then show ?thesis by (simp add: pow2_def k)
next
  case False
  then obtain n where k: "k = - int n" "0 < n" using neg_int_cases[of k] by (metis not_le)
  have "(2::real) powr real n = 2 ^ n" by (rule powr_realpow) simp
  then have "(2::real) powr (- real n) = 1 / 2 ^ n" by (simp add: powr_minus_divide)
  then show ?thesis using k by (simp add: pow2_def)
qed

lemma double_eval:
  assumes "pow2 e \<le> \<bar>x\<bar>" and "\<bar>x\<bar> < pow2 (e + 1)" and "- 1022 \<le> e"
  shows "double x = of_int (round_half_even (x / pow2 (e - 52))) * pow2 (e - 52)"
proof -
  have pos: "0 < \<bar>x\<bar>" using assms(1) pow2_pos[of e] by linarith
  then have nz: "x \<noteq> 0" by simp
  have "real_of_int e \<le> log 2 \<bar>x\<bar>"
    using assms(1) pos by (simp add: le_log_iff pow2_powr)
  moreover have "log 2 \<bar>x\<bar> < real_of_int e + 1"
    using assms(2) pos by (simp add: log_less_iff pow2_powr)
  ultimately have "\<lfloor>log 2 \<bar>x\<bar>\<rfloor> = e"
    by (intro floor_unique) simp_all
  then show ?thesis
    using nz assms(3) by (simp add: double_def Let_def max_def)
qed

lemma double_zero: "double 0 = 0"
  by (simp add: double_def)

lemma double_one: "double 1 = 1"
  using double_eval[of 0 1] by (simp add: pow2_def round_half_even_def)

lemma double_two: "double 2 = 2"
  using double_eval[of 1 2] by (simp add: pow2_def round_half_even_def)





lemma double_w1: "double (1025/1024) = 1025/1024"
  using double_eval[of 0 "1025/1024"] by (simp add: pow2_def round_half_even_def)

lemma double_tiny: "double (1 / 2 ^ 53) = 1 / 2 ^ 53"
  using double_eval[of "-53" "1 / 2 ^ 53"] by (simp add: pow2_def round_half_even_def)

lemma double_tie: "double (1 + 1 / 2 ^ 53) = 1"
  using double_eval[of 0 "1 + 1 / 2 ^ 53"] by (simp add: pow2_def round_half_even_def)

lemma double_hundredth: "double (1/100) = 5764607523034235 / 2 ^ 59"
  using double_eval[of "-7" "1/100"] by (simp add: pow2_def round_half_even_def)

lemma double_p: "double (1025/512) = 1025/512"
  using double_eval[of 1 "1025/512"] by (simp add: pow2_def round_half_even_def)

lemma round3_p: "round3 (1025/512) = 1001/500"
  by (simp add: round3_def round_half_even_def)

lemma double_2002: "double (1001/500) = 4508103226997866 / 2 ^ 51"
  using double_eval[of 1 "1001/500"] by (simp add: pow2_def round_half_even_def)

text \<open>
  Rounding does not leave an interval whose bound is a multiple of the spacing: a result
  bounded by \<open>i \<cdot> 2\<^sup>m\<close> with \<open>i \<le> 2\<^sup>5\<^sup>2\<close>, or by a power of two, is rounded to a
  value within the same bound.
\<close>

lemma round_half_even_abs_le:
  assumes "\<bar>x\<bar> \<le> of_int n"
  shows "\<bar>round_half_even x\<bar> \<le> n"
proof -
  have lo: "- n \<le> \<lfloor>x\<rfloor>" using assms by (simp add: le_floor_iff abs_le_iff) 
  have hi: "\<lfloor>x\<rfloor> \<le> n" using assms by (simp add: floor_le_iff abs_le_iff)
  have hi2: "\<lfloor>x\<rfloor> + 1 \<le> n" if "x - of_int \<lfloor>x\<rfloor> \<noteq> 0"
  proof -
    have "of_int \<lfloor>x\<rfloor> < x" using that of_int_floor_le[of x] by linarith
    then have "of_int \<lfloor>x\<rfloor> < (of_int n :: real)" using assms by linarith
    then show ?thesis by simp
  qed
  show ?thesis
    unfolding round_half_even_def Let_def using lo hi hi2 by (auto simp: abs_le_iff)
qed

lemma pow2_add: "pow2 (a + b) = pow2 a * pow2 b"
  by (simp add: pow2_powr powr_add)

lemma pow2_nat: "pow2 (int k) = 2 ^ k"
  by (simp add: pow2_def)

lemma double_abs_le:
  assumes "\<bar>x\<bar> \<le> of_int n * pow2 (max \<lfloor>log 2 \<bar>x\<bar>\<rfloor> (- 1022) - 52)"
  shows "\<bar>double x\<bar> \<le> of_int n * pow2 (max \<lfloor>log 2 \<bar>x\<bar>\<rfloor> (- 1022) - 52)"
proof (cases "x = 0")
  case True
  then show ?thesis using assms by (simp add: double_def)
next
  case False
  let ?u = "pow2 (max \<lfloor>log 2 \<bar>x\<bar>\<rfloor> (- 1022) - 52)"
  have u: "0 < ?u" by (rule pow2_pos)
  have "\<bar>x / ?u\<bar> \<le> of_int n"
    using assms u by (simp add: abs_divide field_simps)
  then have "\<bar>round_half_even (x / ?u)\<bar> \<le> n"
    by (rule round_half_even_abs_le)
  then have "\<bar>real_of_int (round_half_even (x / ?u))\<bar> \<le> of_int n"
    by linarith
  then have "\<bar>real_of_int (round_half_even (x / ?u)) * ?u\<bar> \<le> of_int n * ?u"
    using u by (simp add: abs_mult)
  then show ?thesis
    using False by (simp add: double_def Let_def)
qed

lemma exponent_le:
  assumes "\<bar>x\<bar> \<le> 2 ^ k" "x \<noteq> 0"
  shows "max \<lfloor>log 2 \<bar>x\<bar>\<rfloor> (- 1022) \<le> int k"
proof -
  have "log 2 \<bar>x\<bar> \<le> log 2 (2 ^ k)"
    using assms by (simp del: log_pow_cancel)
  then have "log 2 \<bar>x\<bar> \<le> real k" by simp
  then have "\<lfloor>log 2 \<bar>x\<bar>\<rfloor> \<le> int k" by (simp add: floor_le_iff) 
  then show ?thesis by simp
qed

lemma double_bound:
  assumes "\<bar>x\<bar> \<le> real i * 2 ^ m" "real i * 2 ^ m \<le> 2 ^ (m + 52)"
  shows "\<bar>double x\<bar> \<le> real i * 2 ^ m"
proof (cases "x = 0")
  case True
  then show ?thesis by (simp add: double_def)
next
  case False
  let ?e = "max \<lfloor>log 2 \<bar>x\<bar>\<rfloor> (- 1022)"
  have "\<bar>x\<bar> \<le> 2 ^ (m + 52)" using assms by linarith
  then have e: "?e \<le> int (m + 52)" using False by (rule exponent_le)
  define d where "d = nat (int m - (?e - 52))"
  have "?e - 52 \<le> int m" using e by linarith
  then have "int d = int m - (?e - 52)" unfolding d_def by (rule nat_0_le[OF iffD2[OF diff_ge_0_iff_ge]])
  then have "int m = int d + (?e - 52)" by linarith
  then have "pow2 (int m) = pow2 (int d) * pow2 (?e - 52)"
    by (simp only: pow2_add)
  then have eq: "real i * 2 ^ m = of_int (int i * 2 ^ d) * pow2 (?e - 52)"
    by (simp add: pow2_nat)
  have "\<bar>x\<bar> \<le> of_int (int i * 2 ^ d) * pow2 (?e - 52)"
    using assms(1) by (simp only: eq)
  then have "\<bar>double x\<bar> \<le> of_int (int i * 2 ^ d) * pow2 (?e - 52)"
    by (rule double_abs_le)
  then show ?thesis
    by (simp only: eq)
qed

lemma double_pow_bound:
  assumes "\<bar>x\<bar> \<le> 2 ^ m"
  shows "\<bar>double x\<bar> \<le> 2 ^ m"
  using double_bound[of x 1 m] assms by simp

lemma foldl_double_bound:
  assumes "list_all (\<lambda>e. \<bar>weight e\<bar> \<le> 2 ^ 900) es" "\<bar>s\<bar> \<le> real i * 2 ^ 900"
    and "i + length es \<le> 2 ^ 52"
  shows "\<bar>foldl (\<lambda>s e. double (s + weight e)) s es\<bar> \<le> real (i + length es) * 2 ^ 900"
  using assms
proof (induction es arbitrary: s i)
  case Nil
  then show ?case by simp
next
  case (Cons e es)
  have i: "Suc i \<le> 2 ^ 52" using Cons.prems(3) by simp
  have "\<bar>s + weight e\<bar> \<le> real (Suc i) * 2 ^ 900"
    using Cons.prems(1,2) by (simp add: algebra_simps) linarith
  moreover have "real (Suc i) * 2 ^ 900 \<le> 2 ^ (900 + 52)"
  proof -
    have "real (Suc i) \<le> 2 ^ 52" using i by (metis of_nat_le_iff of_nat_numeral of_nat_power)
    then have "real (Suc i) * 2 ^ 900 \<le> 2 ^ 52 * 2 ^ 900" by (rule mult_right_mono) simp
    then show ?thesis by (simp only: power_add mult.commute)
  qed
  ultimately have "\<bar>double (s + weight e)\<bar> \<le> real (Suc i) * 2 ^ 900"
    by (rule double_bound)
  then have "\<bar>foldl (\<lambda>s e. double (s + weight e)) (double (s + weight e)) es\<bar>
        \<le> real (Suc i + length es) * 2 ^ 900"
    using Cons.prems(1,3) by (intro Cons.IH) simp_all
  then show ?case by simp
qed

lemma round_half_even_close: "\<bar>real_of_int (round_half_even x) - x\<bar> \<le> 1/2"
  unfolding round_half_even_def Let_def by (auto simp: abs_if) linarith+

lemma round3_close: "\<bar>round3 x - x\<bar> \<le> 1/2000"
proof -
  have "\<bar>round3 x - x\<bar> = \<bar>real_of_int (round_half_even (x * 1000)) - x * 1000\<bar> / 1000"
    by (simp add: round3_def field_simps)
  then show ?thesis
    using round_half_even_close[of "x * 1000"] by simp
qed

section \<open>The collective aggregator: contribute\<close>














section \<open>The influence graph: puppeteers\<close>

lemma tally_edges_folds:
  "tally_edges es (outgoing, incoming, hidden_count)
     = (\<lambda>a. foldl (\<lambda>s e. double (s + weight e)) (outgoing a) (filter (\<lambda>e. source e = a) es),
        \<lambda>a. foldl (\<lambda>s e. double (s + weight e)) (incoming a) (filter (\<lambda>e. target e = a) es),
        \<lambda>a. hidden_count a + length (filter (\<lambda>e. source e = a \<and> \<not> visible e) es))"
proof (induction es arbitrary: outgoing incoming hidden_count)
  case Nil
  show ?case by simp
next
  case (Cons e es)
  show ?case
    by (simp add: Cons.IH Let_def fun_eq_iff)
qed

lemma tally_edges_init:
  "tally_edges (edges g) (\<lambda>_. 0, \<lambda>_. 0, \<lambda>_. 0) = (out_weight g, in_weight g, hidden_out g)"
  by (simp add: tally_edges_folds out_weight_def in_weight_def hidden_out_def fun_eq_iff)

lemma puppeteers_loop_eq:
  "puppeteers_loop as (out_weight g) (in_weight g) (hidden_out g)
     = map (puppeteer_of g) (filter (qualifies g) as)"
  by (induction as) (simp_all add: Let_def qualifies_def puppeteer_of_def raw_score_def)

lemma find_puppeteers_eq:
  "find_puppeteers g
     = sort_reverse puppet_score (map (puppeteer_of g) (filter (qualifies g) (map fst (actors g))))"
  by (simp add: find_puppeteers_def tally_edges_init puppeteers_loop_eq)

lemma graph1_edges:
  "edges graph1 =
     [\<lparr>source = ''A'', target = ''B'', relation = ''funds'', weight = 1 + 1 / 2 ^ 10,
       visible = False, mask_used = None\<rparr>,
      \<lparr>source = ''B'', target = ''A'', relation = ''influences'', weight = 1,
       visible = True, mask_used = None\<rparr>]"
  by (simp add: graph1_def add_edge_def add_actor_def InfluenceGraph_init_def)

lemma graph1_actors: "map fst (actors graph1) = [''A'', ''B'']"
  by (simp add: graph1_def add_edge_def add_actor_def InfluenceGraph_init_def mask_of_def)

lemma graph2_edges:
  "edges graph2 =
     [\<lparr>source = ''A'', target = ''B'', relation = ''funds'', weight = 1,
       visible = False, mask_used = None\<rparr>,
      \<lparr>source = ''A'', target = ''B'', relation = ''influences'', weight = 1 / 2 ^ 53,
       visible = True, mask_used = None\<rparr>,
      \<lparr>source = ''B'', target = ''A'', relation = ''influences'', weight = 1,
       visible = True, mask_used = None\<rparr>]"
  by (simp add: graph2_def add_edge_def add_actor_def InfluenceGraph_init_def)

lemma graph2_actors: "map fst (actors graph2) = [''A'', ''B'']"
  by (simp add: graph2_def add_edge_def add_actor_def InfluenceGraph_init_def mask_of_def)

lemma float_graph1: "float_graph graph1"
  using double_w1 by (simp add: float_graph_def graph1_edges double_one)

lemma float_graph2: "float_graph graph2"
  using double_tiny by (simp add: float_graph_def graph2_edges double_one)

lemma graph1_A:
  "out_weight graph1 ''A'' = 1025/1024" "in_weight graph1 ''A'' = 1" "hidden_out graph1 ''A'' = 1"
  using double_w1 by (simp_all add: out_weight_def in_weight_def hidden_out_def graph1_edges double_one)

lemma graph1_B:
  "out_weight graph1 ''B'' = 1" "in_weight graph1 ''B'' = 1025/1024" "hidden_out graph1 ''B'' = 0"
  using double_w1 by (simp_all add: out_weight_def in_weight_def hidden_out_def graph1_edges double_one)

lemma graph2_A:
  "out_weight graph2 ''A'' = 1" "in_weight graph2 ''A'' = 1" "hidden_out graph2 ''A'' = 1"
  "exact_out graph2 ''A'' = 1 + 1 / 2 ^ 53" "exact_in graph2 ''A'' = 1"
  using double_tie
  by (simp_all add: out_weight_def in_weight_def hidden_out_def exact_out_def exact_in_def
        graph2_edges double_one)

lemma graph2_B: "hidden_out graph2 ''B'' = 0"
  by (simp add: hidden_out_def graph2_edges)

lemma raw_score_graph1: "raw_score graph1 ''A'' = 1025/512"
  by (simp add: raw_score_def graph1_A double_hundredth double_two max_def double_w1 double_p)

lemma find_puppeteers_graph1: "find_puppeteers graph1 = [puppeteer_of graph1 ''A'']"
  by (simp add: find_puppeteers_eq graph1_actors qualifies_def graph1_A graph1_B sort_reverse_def)

lemma find_puppeteers_graph2: "find_puppeteers graph2 = []"
  by (simp add: find_puppeteers_eq graph2_actors qualifies_def graph2_A graph2_B sort_reverse_def)

text \<open>
  On a graph that satisfies \<open>float_graph\<close> every partial sum, the quotient, the product
  and the rounded score stay below \<open>2\<^sup>1\<^sup>0\<^sup>2\<^sup>4\<close>: no operation of \<^verbatim>\<open>find_puppeteers\<close>
  overflows, and \<open>double\<close> is its arithmetic.
\<close>

lemma weight_sum_bound:
  assumes "float_graph g"
  shows "\<bar>foldl (\<lambda>s e. double (s + weight e)) 0 (filter P (edges g))\<bar> \<le> 2 ^ 940"
proof -
  let ?es = "filter P (edges g)"
  have len: "length ?es \<le> 2 ^ 40"
    using assms length_filter_le[of P "edges g"] unfolding float_graph_def by linarith
  have "list_all (\<lambda>e. \<bar>weight e\<bar> \<le> 2 ^ 900) ?es"
    using assms by (auto simp: float_graph_def list_all_iff)
  moreover have "\<bar>0::real\<bar> \<le> real (0::nat) * 2 ^ 900" by simp
  moreover have "0 + length ?es \<le> 2 ^ 52"
  proof -
    have "(2::nat) ^ 40 \<le> 2 ^ 52" by (rule power_increasing) simp_all
    then show ?thesis using len by linarith
  qed
  ultimately have "\<bar>foldl (\<lambda>s e. double (s + weight e)) 0 ?es\<bar>
        \<le> real (0 + length ?es) * 2 ^ 900"
    by (rule foldl_double_bound)
  moreover have "real (0 + length ?es) * 2 ^ 900 \<le> 2 ^ 40 * 2 ^ 900"
  proof (rule mult_right_mono)
    show "real (0 + length ?es) \<le> 2 ^ 40"
      using len by (metis add_0 of_nat_le_iff of_nat_numeral of_nat_power)
  qed simp
  moreover have "(2::real) ^ 40 * 2 ^ 900 = 2 ^ 940"
    by (simp only: power_add[symmetric]) simp
  ultimately show ?thesis by linarith
qed

lemma find_puppeteers_in_range:
  assumes "float_graph g"
  shows "\<bar>out_weight g a\<bar> \<le> 2 ^ 940" and "\<bar>in_weight g a\<bar> \<le> 2 ^ 940"
    and "\<bar>raw_score g a\<bar> \<le> 2 ^ 988" and "\<bar>float_round3 (raw_score g a)\<bar> \<le> 2 ^ 989"
proof -
  show out: "\<bar>out_weight g a\<bar> \<le> 2 ^ 940"
    unfolding out_weight_def using assms by (rule weight_sum_bound)
  show "\<bar>in_weight g a\<bar> \<le> 2 ^ 940"
    unfolding in_weight_def using assms by (rule weight_sum_bound)
  let ?m = "max (in_weight g a) (double (1/100))"
  have m: "1 / 2 ^ 7 \<le> ?m"
    by (simp add: double_hundredth max_def)
  then have m0: "0 < ?m"
    by (rule less_le_trans[rotated]) simp
  have "\<bar>out_weight g a / ?m\<bar> = \<bar>out_weight g a\<bar> / ?m"
    using m0 by (simp add: abs_divide)
  also have "\<dots> \<le> 2 ^ 940 / ?m"
    using out m0 by (simp add: divide_right_mono)
  also have "\<dots> \<le> 2 ^ 940 / (1 / 2 ^ 7)"
    using m by (intro divide_left_mono) simp_all
  also have "\<dots> = 2 ^ 947"
    by (simp add: power_add[symmetric])
  finally have "\<bar>out_weight g a / ?m\<bar> \<le> 2 ^ 947" .
  then have q: "\<bar>double (out_weight g a / ?m)\<bar> \<le> 2 ^ 947"
    by (rule double_pow_bound)
  have "hidden_out g a \<le> length (edges g)"
    by (simp add: hidden_out_def)
  then have "1 + hidden_out g a \<le> 1 + 2 ^ 40"
    using assms unfolding float_graph_def by linarith
  also have "\<dots> \<le> (2::nat) ^ 41" by simp
  finally have "real (1 + hidden_out g a) \<le> 2 ^ 41"
    by (metis of_nat_le_iff of_nat_numeral of_nat_power)
  then have "\<bar>real (1 + hidden_out g a)\<bar> \<le> 2 ^ 41" by simp
  then have h: "\<bar>double (real (1 + hidden_out g a))\<bar> \<le> 2 ^ 41"
    by (rule double_pow_bound)
  have "\<bar>double (out_weight g a / ?m) * double (real (1 + hidden_out g a))\<bar>
          \<le> 2 ^ 947 * 2 ^ 41"
    unfolding abs_mult using q h by (intro mult_mono) simp_all
  also have "(2::real) ^ 947 * 2 ^ 41 = 2 ^ 988"
    by (simp only: power_add[symmetric]) simp
  finally show r: "\<bar>raw_score g a\<bar> \<le> 2 ^ 988"
    unfolding raw_score_def by (rule double_pow_bound)
  have "\<bar>round3 (raw_score g a)\<bar> \<le> \<bar>raw_score g a\<bar> + 1 / 2000"
    using round3_close[of "raw_score g a"] by linarith
  also have "\<dots> \<le> 2 ^ 988 + 2 ^ 988"
    using r by (intro add_mono) simp_all
  also have "\<dots> = (2::real) ^ 989" by simp
  finally show "\<bar>float_round3 (raw_score g a)\<bar> \<le> 2 ^ 989"
    unfolding float_round3_def by (rule double_pow_bound)
qed

text \<open>
  Claim C5, as amended. On a graph whose edge weights are binary64 values of magnitude at
  most \<open>2\<^sup>9\<^sup>0\<^sup>0\<close> and that has at most \<open>2\<^sup>4\<^sup>0\<close> edges, \<^verbatim>\<open>find_puppeteers\<close> returns exactly
  the registered actors for whom the outgoing edge weights, added in binary64 in the
  order of the edge list, give a float strictly greater than the incoming edge weights
  added in the same way, and who have at least one outgoing edge flagged invisible; so
  no returned actor has \<open>out \<le> in\<close> for these floats, or no hidden edge. Each is scored
  \<open>round(out / max(in, 0.01) * (1 + hiddenCount), 3)\<close>, where the division, the product
  and the rounding to three decimals are those of binary64; the reported influences are
  rounded to three decimals as well; and the list is in descending order of the rounded
  score, actors with equal rounded scores in registration order.
\<close>

theorem find_puppeteers_ranking:
  assumes "float_graph g"
  shows "mset (map puppeteer_actor (find_puppeteers g))
     = mset (filter (qualifies g) (map fst (actors g)))
   \<and> list_all (\<lambda>p. qualifies g (puppeteer_actor p)
                   \<and> outgoing_influence p = float_round3 (out_weight g (puppeteer_actor p))
                   \<and> incoming_influence p = float_round3 (in_weight g (puppeteer_actor p))
                   \<and> hidden_connections p = hidden_out g (puppeteer_actor p)
                   \<and> puppet_score p = float_round3 (raw_score g (puppeteer_actor p)))
        (find_puppeteers g)
   \<and> ranked_by (\<lambda>a. float_round3 (raw_score g a)) (filter (qualifies g) (map fst (actors g)))
        (map puppeteer_actor (find_puppeteers g))"
proof -
  let ?qs = "filter (qualifies g) (map fst (actors g))"
  let ?ps = "map (puppeteer_of g) ?qs"
  have actor: "puppeteer_actor (puppeteer_of g a) = a" for a
    by (simp add: puppeteer_of_def)
  have score: "puppet_score (puppeteer_of g a) = float_round3 (raw_score g a)" for a
    by (simp add: puppeteer_of_def)
  have 1: "mset (map puppeteer_actor (find_puppeteers g)) = mset ?qs"
    unfolding find_puppeteers_eq
    by (metis (no_types, lifting) actor map_idI map_map comp_def mset_map mset_sort_reverse)
  have 2: "list_all (\<lambda>p. qualifies g (puppeteer_actor p)
                   \<and> outgoing_influence p = float_round3 (out_weight g (puppeteer_actor p))
                   \<and> incoming_influence p = float_round3 (in_weight g (puppeteer_actor p))
                   \<and> hidden_connections p = hidden_out g (puppeteer_actor p)
                   \<and> puppet_score p = float_round3 (raw_score g (puppeteer_actor p)))
        (find_puppeteers g)"
    unfolding find_puppeteers_eq
    by (auto simp: list_all_iff set_sort_reverse puppeteer_of_def)
  have keys: "\<forall>p \<in> set (find_puppeteers g).
                puppet_score p = float_round3 (raw_score g (puppeteer_actor p))"
    using 2 by (simp add: list_all_iff)
  have "map (\<lambda>a. float_round3 (raw_score g a)) (map puppeteer_actor (find_puppeteers g))
        = map puppet_score (find_puppeteers g)"
    using keys by simp
  then have 3: "sorted (rev (map (\<lambda>a. float_round3 (raw_score g a))
                               (map puppeteer_actor (find_puppeteers g))))"
    by (simp only: find_puppeteers_eq sorted_sort_reverse)
  have 4: "filter (\<lambda>a. float_round3 (raw_score g a) = k) (map puppeteer_actor (find_puppeteers g))
           = filter (\<lambda>a. float_round3 (raw_score g a) = k) ?qs" for k
  proof -
    have "filter (\<lambda>a. float_round3 (raw_score g a) = k) (map puppeteer_actor (find_puppeteers g))
          = map puppeteer_actor
              (filter (\<lambda>p. float_round3 (raw_score g (puppeteer_actor p)) = k) (find_puppeteers g))"
      by (simp add: filter_map comp_def)
    also have "filter (\<lambda>p. float_round3 (raw_score g (puppeteer_actor p)) = k) (find_puppeteers g)
          = filter (\<lambda>p. puppet_score p = k) (find_puppeteers g)"
      using keys by (intro filter_cong) auto
    also have "\<dots> = filter (\<lambda>p. puppet_score p = k) ?ps"
      unfolding find_puppeteers_eq by (rule filter_sort_reverse)
    also have "map puppeteer_actor \<dots> = filter (\<lambda>a. float_round3 (raw_score g a) = k) ?qs"
      by (simp add: filter_map comp_def actor score)
    finally show ?thesis .
  qed
  show ?thesis
    unfolding ranked_by_def using 1 2 3 4 by blast
qed

theorem find_puppeteers_ranking_witness:
  "float_graph graph1
   \<and> mset (map puppeteer_actor (find_puppeteers graph1)) = {#''A''#}
   \<and> list_all (\<lambda>p. puppet_score p = 4508103226997866 / 2 ^ 51) (find_puppeteers graph1)"
proof -
  have q: "filter (qualifies graph1) (map fst (actors graph1)) = [''A'']"
    by (simp add: graph1_actors qualifies_def graph1_A graph1_B)
  have s: "float_round3 (raw_score graph1 ''A'') = 4508103226997866 / 2 ^ 51"
    by (simp add: raw_score_graph1 float_round3_def round3_p double_2002)
  from find_puppeteers_ranking[OF float_graph1]
  have 1: "mset (map puppeteer_actor (find_puppeteers graph1)) = {#''A''#}"
    and 2: "list_all (\<lambda>p. puppet_score p = float_round3 (raw_score graph1 (puppeteer_actor p)))
              (find_puppeteers graph1)"
    by (simp_all add: q list_all_iff)
  have "set (map puppeteer_actor (find_puppeteers graph1)) = {''A''}"
    using 1 by (metis set_mset_mset set_mset_single)
  then have "\<forall>p \<in> set (find_puppeteers graph1). puppeteer_actor p = ''A''"
    by auto
  then have "list_all (\<lambda>p. puppet_score p = 4508103226997866 / 2 ^ 51) (find_puppeteers graph1)"
    using 2 s by (simp add: list_all_iff)
  then show ?thesis
    using float_graph1 1 by simp
qed

text \<open>
  Claim C5 as stated fails in both of its parts. Membership: in \<open>graph2\<close> the outgoing
  weights of \<open>A\<close> are 1 and \<open>2\<^sup>-\<^sup>5\<^sup>3\<close>, their sum is strictly greater than the incoming
  weight 1 and one outgoing edge is invisible, but binary64 addition rounds the sum to 1
  and \<open>A\<close> is not returned. Score: in \<open>graph1\<close> the value of
  \<open>out / max(in, 0.01) * (1 + hidden)\<close> for \<open>A\<close> is 2.001953125, and \<open>A\<close> is reported
  with the score 2.002.
\<close>

theorem find_puppeteers_counterexample:
  "float_graph graph2 \<and> map fst (actors graph2) = [''A'', ''B'']
   \<and> exact_in graph2 ''A'' < exact_out graph2 ''A'' \<and> 0 < hidden_out graph2 ''A''
   \<and> find_puppeteers graph2 = []
   \<and> float_graph graph1 \<and> map puppeteer_actor (find_puppeteers graph1) = [''A'']
   \<and> \<not> list_all (\<lambda>p. puppet_score p = raw_score graph1 (puppeteer_actor p))
          (find_puppeteers graph1)"
proof -
  have 1: "exact_in graph2 ''A'' < exact_out graph2 ''A''" "0 < hidden_out graph2 ''A''"
    by (simp_all add: graph2_A)
  have 2: "map puppeteer_actor (find_puppeteers graph1) = [''A'']"
    by (simp add: find_puppeteers_graph1 puppeteer_of_def)
  have "puppet_score (puppeteer_of graph1 ''A'') = 4508103226997866 / 2 ^ 51"
    by (simp add: puppeteer_of_def raw_score_graph1 float_round3_def round3_p double_2002)
  then have 3: "\<not> list_all (\<lambda>p. puppet_score p = raw_score graph1 (puppeteer_actor p))
          (find_puppeteers graph1)"
    by (simp add: find_puppeteers_graph1 raw_score_graph1 puppeteer_of_def)
  show ?thesis
    using float_graph1 float_graph2 graph2_actors find_puppeteers_graph2 1 2 3 by (intro conjI)
qed


section \<open>The entropy of the spell distribution\<close>

lemma dict_incr_keys:
  "map fst (dict_incr d k) = (if k \<in> fst ` set d then map fst d else map fst d @ [k])"
proof (induction d)
  case Nil
  show ?case by simp
next
  case (Cons e d)
  obtain k' v where e: "e = (k', v)" by (cases e)
  show ?case
  proof (cases "k' = k")
    case True
    then show ?thesis by (simp add: e)
  next
    case False
    then have "k \<in> fst ` set (e # d) \<longleftrightarrow> k \<in> fst ` set d"
      by (auto simp: e)
    then show ?thesis using False Cons.IH by (simp add: e)
  qed
qed

lemma dict_incr_distinct: "distinct (map fst d) \<Longrightarrow> distinct (map fst (dict_incr d k))"
  by (simp add: dict_incr_keys)

lemma dict_incr_key_set: "fst ` set (dict_incr d k) = insert k (fst ` set d)"
  using arg_cong[OF dict_incr_keys[of d k], of set] by (auto split: if_splits)

lemma dict_incr_lookup:
  "map_of (dict_incr d k) k'
     = (if k' = k then Some ((case map_of d k of None \<Rightarrow> 0 | Some v \<Rightarrow> v) + 1) else map_of d k')"
  by (induction d) auto

lemma counts_keys:
  "distinct (map fst d) \<Longrightarrow>
     distinct (map fst (fold (\<lambda>k d. dict_incr d k) ns d))
     \<and> fst ` set (fold (\<lambda>k d. dict_incr d k) ns d) = fst ` set d \<union> set ns"
proof (induction ns arbitrary: d)
  case Nil
  then show ?case by simp
next
  case (Cons n ns)
  have "distinct (map fst (dict_incr d n))"
    using Cons.prems by (rule dict_incr_distinct)
  from Cons.IH[OF this] show ?case
    by (simp add: dict_incr_key_set)
qed

lemma counts_lookup:
  "map_of (fold (\<lambda>k d. dict_incr d k) ns d) k
     = (if k \<in> set ns
        then Some ((case map_of d k of None \<Rightarrow> 0 | Some v \<Rightarrow> v) + int (count_list ns k))
        else map_of d k)"
  by (induction ns arbitrary: d) (auto simp: dict_incr_lookup)

lemma counts_uniform:
  assumes "\<forall>k \<in> set ns. count_list ns k = c"
  shows "map snd (fold (\<lambda>k d. dict_incr d k) ns []) = replicate (card (set ns)) (int c)"
proof -
  let ?r = "fold (\<lambda>k d. dict_incr d k) ns []"
  have d: "distinct (map fst ?r)" and s: "fst ` set ?r = set ns"
    using counts_keys[of "[]" ns] by simp_all
  have len: "length (map snd ?r) = card (set ns)"
    using distinct_card[OF d] s by simp
  have "\<forall>v \<in> set (map snd ?r). v = int c"
  proof
    fix v assume "v \<in> set (map snd ?r)"
    then obtain k where kv: "(k, v) \<in> set ?r" by auto
    then have "map_of ?r k = Some v" using d by simp
    moreover have "k \<in> set ns" using kv s by (metis fst_conv image_eqI)
    ultimately show "v = int c"
      using assms by (simp add: counts_lookup)
  qed
  then have "replicate (length (map snd ?r)) (int c) = map snd ?r"
    by (intro replicate_length_same) auto
  then show ?thesis using len by simp
qed

lemma SpellType_name_inj: "inj SpellType_name"
proof (rule injI)
  fix a b assume "SpellType_name a = SpellType_name b"
  then show "a = b" by (cases a; cases b) simp_all
qed

lemma spell_type_counts_conv:
  "spell_type_counts ss
     = fold (\<lambda>k d. dict_incr d k) (map SpellType_name (map spell_type ss)) []"
  by (simp add: spell_type_counts_def fold_map comp_def)

lemma entropy_replicate:
  assumes "0 < n" "0 < c"
  shows "- sum_list (map (\<lambda>c'. (real_of_int c' / real_of_int (sum_list (replicate n (int c))))
                               * log 2 (real_of_int c' / real_of_int (sum_list (replicate n (int c)))))
                      (filter (\<lambda>c'. 0 < c') (replicate n (int c))))
         = log 2 (real n)"
proof -
  have t: "real_of_int (sum_list (replicate n (int c))) = real n * real c"
    by (simp add: sum_list_replicate)
  have f: "filter (\<lambda>c'. 0 < c') (replicate n (int c)) = replicate n (int c)"
    using assms(2) by simp
  have q: "real_of_int (int c) / (real n * real c) = 1 / real n"
    using assms by simp
  have "log 2 (1 / real n) = - log 2 (real n)"
    using assms(1) by (simp add: log_divide)
  then show ?thesis
    unfolding t f using assms
    by (simp add: sum_list_replicate q)
qed

lemma spell_entropy_equal_frequency:
  assumes "ss \<noteq> []"
    and "\<forall>t \<in> set (map spell_type ss). count_list (map spell_type ss) t = c"
  shows "spell_entropy ss = log 2 (real (card (set (map spell_type ss))))"
proof -
  let ?ts = "map spell_type ss"
  let ?ns = "map SpellType_name ?ts"
  have cnt: "\<forall>k \<in> set ?ns. count_list ?ns k = c"
  proof
    fix k assume "k \<in> set ?ns"
    then obtain t where t: "t \<in> set ?ts" "k = SpellType_name t" by auto
    have "count_list ?ns (SpellType_name t) = count_list ?ts t"
      by (rule count_list_map_conv[OF SpellType_name_inj])
    then show "count_list ?ns k = c" using assms(2) t by auto
  qed
  have card: "card (set ?ns) = card (set ?ts)"
    using card_image[of SpellType_name "set ?ts"] SpellType_name_inj
    by (metis inj_on_subset list.set_map subset_UNIV)
  have vals: "map snd (spell_type_counts ss) = replicate (card (set ?ts)) (int c)"
    unfolding spell_type_counts_conv using counts_uniform[OF cnt] card by simp
  obtain s where s: "s \<in> set ss" using assms(1) by (cases ss) auto
  have n: "0 < card (set ?ts)"
    using s by (metis card_gt_0_iff List.finite_set empty_iff image_eqI list.set_map)
  have "count_list ?ts (spell_type s) = c" using assms(2) s by simp
  moreover have "0 < count_list ?ts (spell_type s)"
    using s by (metis count_list_0_iff image_eqI list.set_map neq0_conv)
  ultimately have c: "0 < c" by simp
  show ?thesis
    unfolding spell_entropy_def Let_def vals
    by (rule entropy_replicate[OF n c])
qed

lemma single_type_counts:
  assumes "ss \<noteq> []" and "\<forall>s \<in> set ss. spell_type s = X"
  shows "(\<forall>t \<in> set (map spell_type ss). count_list (map spell_type ss) t = length ss)
         \<and> card (set (map spell_type ss)) = 1"
proof -
  have m: "map spell_type ss = replicate (length ss) X"
    using assms(2) by (metis (mono_tags, lifting) length_map map_replicate_const map_eq_conv)
  have "count_list (replicate n X) X = n" for n
    by (induction n) simp_all
  moreover have "set (replicate (length ss) X) = {X}"
    using assms(1) by simp
  ultimately show ?thesis unfolding m by simp
qed

lemma round3_zero: "round3 0 = 0"
  by (simp add: round3_def round_half_even_def)

lemma spell_diversity_eq:
  "ss \<noteq> [] \<Longrightarrow> spell_diversity (compute_spell_potency ss) = Some (round3 (spell_entropy ss))"
  by (cases ss) (simp_all add: compute_spell_potency_def Let_def)

text \<open>
  Claim C6, as amended. For a non-empty list of spells, the entropy that
  \<^verbatim>\<open>compute_spell_potency\<close> computes is 0 when a single subtype is present and
  \<open>log\<^sub>2 N\<close> when \<open>N\<close> distinct subtypes occur with equal frequency (in exact
  arithmetic). The report carries it as \<^verbatim>\<open>spell_diversity\<close> rounded to three
  decimals: exactly 0 for a single subtype, and within \<open>0.0005\<close> of \<open>log\<^sub>2 N\<close>
  otherwise.
\<close>

theorem spell_entropy_uniform:
  assumes "ss \<noteq> []"
  shows "((\<forall>s \<in> set ss. spell_type s = X) \<longrightarrow>
            spell_entropy ss = 0
            \<and> spell_diversity (compute_spell_potency ss) = Some 0)
       \<and> ((\<forall>t \<in> set (map spell_type ss). count_list (map spell_type ss) t = c) \<longrightarrow>
            spell_entropy ss = log 2 (real (card (set (map spell_type ss))))
            \<and> spell_diversity (compute_spell_potency ss)
                = Some (round3 (log 2 (real (card (set (map spell_type ss))))))
            \<and> \<bar>round3 (log 2 (real (card (set (map spell_type ss)))))
                 - log 2 (real (card (set (map spell_type ss))))\<bar> \<le> 1/2000)"
proof (intro conjI impI)
  assume a: "\<forall>s \<in> set ss. spell_type s = X"
  have "spell_entropy ss = log 2 1"
    using spell_entropy_equal_frequency[OF assms, of "length ss"]
      single_type_counts[OF assms a] by simp
  then show e: "spell_entropy ss = 0" by simp
  show "spell_diversity (compute_spell_potency ss) = Some 0"
    using spell_diversity_eq[OF assms] e by (simp add: round3_zero)
next
  assume a: "\<forall>t \<in> set (map spell_type ss). count_list (map spell_type ss) t = c"
  show e: "spell_entropy ss = log 2 (real (card (set (map spell_type ss))))"
    by (rule spell_entropy_equal_frequency[OF assms a])
  show "spell_diversity (compute_spell_potency ss)
          = Some (round3 (log 2 (real (card (set (map spell_type ss))))))"
    using spell_diversity_eq[OF assms] e by simp
  show "\<bar>round3 (log 2 (real (card (set (map spell_type ss)))))
                 - log 2 (real (card (set (map spell_type ss))))\<bar> \<le> 1/2000"
    by (rule round3_close)
qed


lemma log2_3_bounds: "84/53 < log 2 3" "log 2 3 < 485/306"
proof -
  have "(2::nat) ^ 84 < 3 ^ 53" by simp
  then have "real 84 < log 2 (real ((3::nat) ^ 53))"
    by (rule less_log2_of_power)
  moreover have "real ((3::nat) ^ 53) = (3::real) ^ 53"
    by (simp only: of_nat_power of_nat_numeral)
  moreover have "log 2 ((3::real) ^ 53) = real 53 * log 2 3"
    by (rule log_nat_power) simp
  ultimately have "real 84 < real 53 * log 2 3" by (simp only:)
  then show "84/53 < log 2 3" by simp
  have "(3::nat) ^ 306 < 2 ^ 485" by simp
  then have "log 2 (real ((3::nat) ^ 306)) < real 485"
    by (intro log2_of_power_less) simp_all
  moreover have "real ((3::nat) ^ 306) = (3::real) ^ 306"
    by (simp only: of_nat_power of_nat_numeral)
  moreover have "log 2 ((3::real) ^ 306) = real 306 * log 2 3"
    by (rule log_nat_power) simp
  ultimately have "real 306 * log 2 3 < real 485" by (simp only:)
  then show "log 2 3 < 485/306" by simp
qed

lemma round3_log2_3: "round3 (log 2 3) = 1585/1000"
proof -
  have lo: "1584.9 < log 2 3 * 1000" using log2_3_bounds(1) by simp
  have hi: "log 2 3 * 1000 < 1584.97" using log2_3_bounds(2) by simp
  have f: "\<lfloor>log 2 3 * 1000\<rfloor> = 1584"
    using lo hi by (intro floor_unique) simp_all
  have "round_half_even (log 2 3 * 1000) = 1585"
    using lo by (simp add: round_half_even_def Let_def f)
  then show ?thesis by (simp add: round3_def)
qed

lemma spells3_types: "map spell_type spells3 = [ORIGIN_MYTH, PROGRESS_NARRATIVE, BINARY_SPELL]"
proof -
  have "map fst (map (\<lambda>s. (spell_type s, potency s, reach s)) spells3)
        = [ORIGIN_MYTH, PROGRESS_NARRATIVE, BINARY_SPELL]"
    by (simp only: spells3_scores list.map fst_conv)
  then show ?thesis by (simp add: comp_def)
qed

lemma spells1_types: "map spell_type spells1 = [ORIGIN_MYTH]"
proof -
  have "map fst (map (\<lambda>s. (spell_type s, potency s, reach s)) spells1) = [ORIGIN_MYTH]"
    by (simp only: spells1_scores list.map fst_conv)
  then show ?thesis by (simp add: comp_def)
qed

text \<open>
  Claim C6 as stated fails on the value the function returns: for the three spells of
  three distinct subtypes found in the text of \<open>spells3\<close>, the reported
  \<^verbatim>\<open>spell_diversity\<close> is 1.585, which differs from \<open>log\<^sub>2 3\<close> by more than \<open>10\<^sup>-\<^sup>9\<close>.
\<close>

theorem spell_diversity_counterexample:
  "map spell_type spells3 = [ORIGIN_MYTH, PROGRESS_NARRATIVE, BINARY_SPELL]
   \<and> spell_diversity (compute_spell_potency spells3) = Some (1585/1000)
   \<and> 1 / 10 ^ 9 < \<bar>1585/1000 - log 2 3\<bar>"
proof -
  have ne: "spells3 \<noteq> []" using spells3_types by auto
  have "spell_entropy spells3 = log 2 (real (card (set (map spell_type spells3))))"
    by (rule spell_entropy_equal_frequency[OF ne, of 1]) (simp add: spells3_types)
  then have e: "spell_entropy spells3 = log 2 3"
    by (simp add: spells3_types)
  have d: "spell_diversity (compute_spell_potency spells3) = Some (1585/1000)"
    using spell_diversity_eq[OF ne] e round3_log2_3 by simp
  have "log 2 3 < 1585/1000 - 1 / 10 ^ 9"
    using log2_3_bounds(2) by simp
  then have "1 / 10 ^ 9 < \<bar>1585/1000 - log 2 3\<bar>" by linarith
  then show ?thesis using spells3_types d by blast
qed



theorem spell_entropy_uniform_witness:
  "spells1 \<noteq> [] \<and> map spell_type spells1 = [ORIGIN_MYTH]
   \<and> spell_entropy spells1 = 0
   \<and> spell_diversity (compute_spell_potency spells1) = Some 0
   \<and> spells3 \<noteq> []
   \<and> map spell_type spells3 = [ORIGIN_MYTH, PROGRESS_NARRATIVE, BINARY_SPELL]
   \<and> spell_entropy spells3 = log 2 3
   \<and> spell_diversity (compute_spell_potency spells3) = Some (round3 (log 2 3))
   \<and> \<bar>round3 (log 2 3) - log 2 3\<bar> \<le> 1/2000"
proof -
  have ne1: "spells1 \<noteq> []" using spells1_types by auto
  have ne3: "spells3 \<noteq> []" using spells3_types by auto
  have h1: "\<forall>s \<in> set spells1. spell_type s = ORIGIN_MYTH"
  proof
    fix s assume "s \<in> set spells1"
    then have "spell_type s \<in> set (map spell_type spells1)" by simp
    then show "spell_type s = ORIGIN_MYTH" unfolding spells1_types by simp
  qed
  have h3: "\<forall>t \<in> set (map spell_type spells3). count_list (map spell_type spells3) t = 1"
    by (simp add: spells3_types)
  have c3: "real (card (set (map spell_type spells3))) = 3"
    by (simp add: spells3_types)
  have a: "spell_entropy spells1 = 0"
    "spell_diversity (compute_spell_potency spells1) = Some 0"
    using spell_entropy_uniform[OF ne1, of ORIGIN_MYTH 0] h1 by blast+
  have b: "spell_entropy spells3 = log 2 3"
    "spell_diversity (compute_spell_potency spells3) = Some (round3 (log 2 3))"
    "\<bar>round3 (log 2 3) - log 2 3\<bar> \<le> 1/2000"
    using spell_entropy_uniform[OF ne3, of ORIGIN_MYTH 1] h3 unfolding c3 by blast+
  show ?thesis
    using ne1 ne3 spells1_types spells3_types a b by (intro conjI)
qed

section \<open>The collective aggregator: loading a snapshot\<close>

lemma CollectiveInsight_init_no_path:
  "CollectiveInsight_init None file = Some (empty_collective None)"
  by (simp add: CollectiveInsight_init_def)

lemma CollectiveInsight_init_missing:
  "CollectiveInsight_init sp NoFile = Some (empty_collective sp)"
  by (simp add: CollectiveInsight_init_def)

lemma CollectiveInsight_init_unparsable:
  "CollectiveInsight_init sp Unparsable = Some (empty_collective sp)"
  by (cases sp) (simp_all add: CollectiveInsight_init_def load_collective_def
        empty_collective_def Let_def)

lemma CollectiveInsight_init_not_a_dict:
  "\<forall>kvs. data \<noteq> JObj kvs \<Longrightarrow>
     CollectiveInsight_init sp (Snapshot data) = Some (empty_collective sp)"
  by (cases sp; cases data)
     (simp_all add: CollectiveInsight_init_def load_collective_def empty_collective_def Let_def)

text \<open>
  Claim C7 at a malformed snapshot. The file
  \<^verbatim>\<open>{"total_analyses": 7, "frame_frequencies": 3}\<close> parses; \<^verbatim>\<open>_load\<close> assigns the
  total, then \<^verbatim>\<open>defaultdict(int, 3)\<close> raises \<^verbatim>\<open>TypeError\<close>, which is swallowed.
  The constructor does not raise, but the aggregator is left with 7 contributions and
  empty counters, not in the empty initial state.
\<close>

theorem load_keeps_partial_state:
  "CollectiveInsight_init (Some ''collective.json'') (Snapshot corrupt_snapshot)
     = Some \<lparr>storage_path = Some ''collective.json'', analyses = [], frame_frequencies = [],
             mask_frequencies = [], spell_frequencies = [], prison_frequencies = [],
             total_analyses = 7\<rparr>
   \<and> CollectiveInsight_init (Some ''collective.json'') (Snapshot corrupt_snapshot)
     \<noteq> Some (empty_collective (Some ''collective.json''))"
  by (simp add: CollectiveInsight_init_def load_collective_def empty_collective_def
        corrupt_snapshot_def load_frequencies_def bind_def Let_def)


section \<open>What a detector call depends on and changes\<close>

lemma blank_projection:
  fixes r1 r2 :: "(real \<times> 'a) list"
  assumes "map (\<lambda>p. (fst p, f (snd p))) r1 = map (\<lambda>p. (fst p, f (snd p))) r2"
  shows "map f (map snd (sort_reverse fst r1)) = map f (map snd (sort_reverse fst r2))"
proof -
  let ?h = "\<lambda>p. (fst p, f (snd p))"
  have "map f (map snd (sort_reverse fst r)) = map snd (sort_reverse fst (map ?h r))" for r :: "(real \<times> 'a) list"
  proof -
    have "map f (map snd (sort_reverse fst r)) = map snd (map ?h (sort_reverse (\<lambda>p. fst (?h p)) r))"
      by (simp add: comp_def)
    also have "map ?h (sort_reverse (\<lambda>p. fst (?h p)) r) = sort_reverse fst (map ?h r)"
      by (rule map_sort_reverse)
    finally show ?thesis .
  qed
  then show ?thesis using assms by simp
qed

lemma detect_frames_loop_blank:
  "map (\<lambda>p. (fst p, blank_frame (snd p))) (fst (detect_frames_loop tlow table w1))
     = map (\<lambda>p. (fst p, blank_frame (snd p))) (fst (detect_frames_loop tlow table w2))"
  by (induction table arbitrary: w1 w2)
     (auto simp: Let_def split_beta blank_frame_def)

lemma identify_masks_loop_blank:
  "map (\<lambda>p. (fst p, blank_mask (snd p))) (fst (identify_masks_loop tlow table g1 w1))
     = map (\<lambda>p. (fst p, blank_mask (snd p))) (fst (identify_masks_loop tlow table g2 w2))"
  by (induction table arbitrary: g1 g2 w1 w2)
     (auto simp: Let_def split_beta blank_mask_def)

lemma analyze_spells_loop_blank:
  "map (\<lambda>p. (fst p, blank_spell (snd p))) (fst (analyze_spells_loop tlow table w1))
     = map (\<lambda>p. (fst p, blank_spell (snd p))) (fst (analyze_spells_loop tlow table w2))"
  by (induction table arbitrary: w1 w2)
     (auto simp: Let_def split_beta blank_spell_def)

lemma map_prisons_loop_blank:
  "map (\<lambda>p. (fst p, blank_prison (snd p))) (fst (map_prisons_loop tlow table w1))
     = map (\<lambda>p. (fst p, blank_prison (snd p))) (fst (map_prisons_loop tlow table w2))"
  by (induction table arbitrary: w1 w2)
     (auto simp: Let_def split_beta blank_prison_def)

lemma identify_masks_loop_edges:
  "edges (fst (snd (identify_masks_loop tlow table g w))) = edges g"
  by (induction table arbitrary: g w)
     (auto simp: Let_def split_beta add_actor_def)

lemma MaskType_name_inj: "MaskType_name a = MaskType_name b \<Longrightarrow> a = b"
  by (cases a; cases b) simp_all

lemma actor_label_inj: "actor_label a = actor_label b \<Longrightarrow> a = b"
  by (simp add: actor_label_def MaskType_name_inj)

lemma identify_masks_loop_actors:
  "\<forall>p \<in> set (fst (identify_masks_loop tlow table g w)).
     actor (snd p) = actor_label (mask_type (snd p)) \<and> mask_type (snd p) \<in> fst ` set table"
proof (induction table arbitrary: g w)
  case Nil
  show ?case by simp
next
  case (Cons e table)
  obtain mt signals where e: "e = (mt, signals)" by (cases e)
  show ?case
    using Cons.IH
    by (simp add: e Let_def split_beta actor_label_def)
qed

lemma map_of_dict_set: "map_of (dict_set d k v) = (map_of d)(k \<mapsto> v)"
  by (induction d) (auto simp: fun_eq_iff)

lemma identify_masks_loop_registers:
  "distinct (map fst table) \<Longrightarrow>
   map_of (actors (fst (snd (identify_masks_loop tlow table g w))))
     = map_of (actors g)
       ++ map_of (map (\<lambda>p. (actor (snd p), snd p)) (fst (identify_masks_loop tlow table g w)))"
proof (induction table arbitrary: g w)
  case Nil
  show ?case by simp
next
  case (Cons e table)
  obtain mt signals where e: "e = (mt, signals)" by (cases e)
  have d: "distinct (map fst table)" and fresh: "mt \<notin> fst ` set table"
    using Cons.prems by (simp_all add: e)
  show ?case
  proof (cases "filter (\<lambda>s. substring_in s tlow) signals = []")
    case True
    then show ?thesis using Cons.IH[OF d] by (simp add: e)
  next
    case False
    define m where "m = \<lparr>mask_id = take 12 (fst (uuid4_hex w)),
                    actor = ''[Actor performing '' @ MaskType_name mt @ '']'',
                    mask_type = mt,
                    formal_role = join '', '' (filter (\<lambda>s. substring_in s tlow) signals),
                    performance = ''Signals: '' @ join '', '' (filter (\<lambda>s. substring_in s tlow) signals)\<rparr>"
    define rest where "rest = fst (identify_masks_loop tlow table (add_actor g m) (snd (uuid4_hex w)))"
    have res: "fst (identify_masks_loop tlow (e # table) g w)
                 = (real (length (filter (\<lambda>s. substring_in s tlow) signals)) / real (length signals), m) # rest"
      using False by (simp add: e Let_def split_beta m_def rest_def)
    have st: "fst (snd (identify_masks_loop tlow (e # table) g w))
                 = fst (snd (identify_masks_loop tlow table (add_actor g m) (snd (uuid4_hex w))))"
      using False by (simp add: e Let_def split_beta m_def)
    have am: "actor m = actor_label mt" by (simp add: m_def actor_label_def)
    have "\<forall>p \<in> set rest. actor (snd p) \<noteq> actor m"
    proof
      fix p assume "p \<in> set rest"
      then have "actor (snd p) = actor_label (mask_type (snd p))" "mask_type (snd p) \<in> fst ` set table"
        using identify_masks_loop_actors[of tlow table "add_actor g m" "snd (uuid4_hex w)"]
        by (simp_all add: rest_def)
      then show "actor (snd p) \<noteq> actor m"
        using fresh am actor_label_inj by metis
    qed
    then have none: "map_of (map (\<lambda>p. (actor (snd p), snd p)) rest) (actor m) = None"
      by (auto simp: map_of_eq_None_iff image_iff)
    have ag: "map_of (actors (add_actor g m)) = (map_of (actors g))(actor m \<mapsto> m)"
      by (simp add: add_actor_def map_of_dict_set)
    have "map_of (actors (fst (snd (identify_masks_loop tlow (e # table) g w))))
          = (map_of (actors g))(actor m \<mapsto> m) ++ map_of (map (\<lambda>p. (actor (snd p), snd p)) rest)"
      unfolding st rest_def ag[symmetric]
      by (rule Cons.IH[OF d])
    also have "\<dots> = map_of (actors g) ++ map_of (map (\<lambda>p. (actor (snd p), snd p)) ((real (length (filter (\<lambda>s. substring_in s tlow) signals)) / real (length signals), m) # rest))"
      using none by (auto simp: fun_eq_iff map_add_def split: option.splits)
    finally show ?thesis unfolding res .
  qed
qed

lemma mset_map_sort_reverse: "mset (map f (sort_reverse k xs)) = mset (map f xs)"
  by (simp add: mset_sort_reverse)

lemma distinct_map_sort_reverse: "distinct (map f (sort_reverse k xs)) = distinct (map f xs)"
  by (rule mset_eq_imp_distinct_iff) (rule mset_map_sort_reverse)

lemma identify_masks_registers:
  "map_of (actors (fst (snd (InfluenceGraph_identify_masks w g text))))
     = map_of (actors g)
       ++ map_of (map (\<lambda>m. (actor m, m)) (fst (InfluenceGraph_identify_masks w g text)))"
proof -
  let ?r = "fst (identify_masks_loop (lower text) MASK_SIGNALS g w)"
  let ?kv = "\<lambda>p. (actor (snd p), snd p) :: string \<times> Mask"
  have keys: "map (\<lambda>p. actor (snd p)) ?r = map actor_label (types_found MASK_SIGNALS (lower text))"
  proof -
    have "map (\<lambda>p. actor (snd p)) ?r = map (\<lambda>p. actor_label (mask_type (snd p))) ?r"
      using identify_masks_loop_actors[of "lower text" MASK_SIGNALS g w] by simp
    also have "\<dots> = map actor_label (map (\<lambda>p. mask_type (snd p)) ?r)"
      by (simp add: comp_def)
    finally show ?thesis by (simp only: identify_masks_loop_types)
  qed
  have "inj_on actor_label (set (types_found MASK_SIGNALS (lower text)))"
    by (rule inj_onI) (rule actor_label_inj)
  then have d1: "distinct (map fst (map ?kv ?r))"
    using distinct_types_found[OF distinct_MASK_SIGNALS, of "lower text"] keys
    by (simp add: comp_def distinct_map)
  have d2: "distinct (map fst (map ?kv (sort_reverse fst ?r)))"
    using d1 by (simp only: distinct_map_sort_reverse map_map)
  have "set (map ?kv (sort_reverse fst ?r)) = set (map ?kv ?r)"
    by (simp add: set_sort_reverse)
  then have eq: "map_of (map ?kv (sort_reverse fst ?r)) = map_of (map ?kv ?r)"
    by (simp only: map_of_inject_set[OF d2 d1])
  have g': "fst (snd (InfluenceGraph_identify_masks w g text))
              = fst (snd (identify_masks_loop (lower text) MASK_SIGNALS g w))"
    by (simp add: InfluenceGraph_identify_masks_def Let_def split_beta)
  have "map (\<lambda>m. (actor m, m)) (fst (InfluenceGraph_identify_masks w g text))
          = map ?kv (sort_reverse fst ?r)"
    by (simp add: fst_identify_masks comp_def)
  then show ?thesis
    unfolding g' using identify_masks_loop_registers[OF distinct_MASK_SIGNALS, of "lower text" g w] eq
    by simp
qed

text \<open>
  Claim C8, as amended. \<^verbatim>\<open>detect_frames\<close>, \<^verbatim>\<open>analyze_spells\<close> and
  \<^verbatim>\<open>map_prisons\<close> take no stored state, and apart from the generated id (and the
  timestamp) of each finding their result is the same in every environment: it is a
  function of the text, the context and the signal table. The masks returned by
  \<^verbatim>\<open>InfluenceGraph.identify_masks\<close> are, apart from their ids, the same for every graph
  and environment; the call leaves the edges of the graph unchanged and registers every
  returned mask in the actor map under its actor label.
\<close>

theorem detectors_determined_up_to_ids:
  "map blank_frame (fst (detect_frames w1 text context))
     = map blank_frame (fst (detect_frames w2 text context))
   \<and> map blank_spell (fst (analyze_spells w1 text)) = map blank_spell (fst (analyze_spells w2 text))
   \<and> map blank_prison (fst (map_prisons w1 text)) = map blank_prison (fst (map_prisons w2 text))
   \<and> map blank_mask (fst (InfluenceGraph_identify_masks w1 g1 text))
     = map blank_mask (fst (InfluenceGraph_identify_masks w2 g2 text))
   \<and> edges (fst (snd (InfluenceGraph_identify_masks w1 g1 text))) = edges g1
   \<and> map_of (actors (fst (snd (InfluenceGraph_identify_masks w1 g1 text))))
     = map_of (actors g1)
       ++ map_of (map (\<lambda>m. (actor m, m)) (fst (InfluenceGraph_identify_masks w1 g1 text)))"
proof -
  have e: "edges (fst (snd (InfluenceGraph_identify_masks w1 g1 text))) = edges g1"
    by (simp add: InfluenceGraph_identify_masks_def Let_def split_beta identify_masks_loop_edges)
  show ?thesis
    unfolding fst_detect_frames fst_analyze_spells fst_map_prisons
    using e identify_masks_registers[of w1 g1 "text"]
      blank_projection[OF detect_frames_loop_blank, of "lower text @ '' '' @ lower context" FRAME_SIGNALS w1 w2]
      blank_projection[OF analyze_spells_loop_blank, of "lower text" SPELL_SIGNALS w1 w2]
      blank_projection[OF map_prisons_loop_blank, of "lower text" PRISON_SIGNALS w1 w2]
      blank_projection[OF identify_masks_loop_blank, of "lower text" MASK_SIGNALS g1 w1 g2 w2]
    by (simp only: fst_identify_masks simp_thms)
qed


lemma detect_normal:
  "map detected_at (fst (detect_frames w ''normal'' [])) = [clock_src w (clock_calls w)]
   \<and> clock_src (snd (detect_frames w ''normal'' [])) = clock_src w
   \<and> clock_calls (snd (detect_frames w ''normal'' [])) = Suc (clock_calls w)"
  by (simp add: detect_frames_def FRAME_SIGNALS_def lower_def lower_char_def sort_reverse_def
        Let_def split_beta uuid4_hex_def now_isoformat_def)

text \<open>
  Claim C8 as stated fails twice. Two successive calls of \<^verbatim>\<open>detect_frames\<close> on the
  text \<^verbatim>\<open>normal\<close> return unequal results, since each frame carries a fresh id and the
  time of its construction; and \<^verbatim>\<open>InfluenceGraph.identify_masks\<close> on the text
  \<^verbatim>\<open>expert\<close> changes the graph it is called on, registering an actor.
\<close>

theorem detectors_pure_counterexample:
  "fst (detect_frames world0 ''normal'' [])
     \<noteq> fst (detect_frames (snd (detect_frames world0 ''normal'' [])) ''normal'' [])
   \<and> fst (snd (InfluenceGraph_identify_masks world0 InfluenceGraph_init ''expert''))
     \<noteq> InfluenceGraph_init"
proof -
  let ?w1 = "snd (detect_frames world0 ''normal'' [])"
  have 1: "map detected_at (fst (detect_frames world0 ''normal'' [])) = [''2024-01-01T00:00:00+00:00'']"
    using detect_normal[of world0] by (simp add: world0_def hexdigit_def)
  have "clock_src ?w1 (clock_calls ?w1) = ''2024-01-01T00:00:01+00:00''"
    using detect_normal[of world0] by (simp add: world0_def hexdigit_def)
  then have 2: "map detected_at (fst (detect_frames ?w1 ''normal'' [])) = [''2024-01-01T00:00:01+00:00'']"
    using detect_normal[of ?w1] by simp
  have 3: "fst (detect_frames world0 ''normal'' []) \<noteq> fst (detect_frames ?w1 ''normal'' [])"
  proof
    assume "fst (detect_frames world0 ''normal'' []) = fst (detect_frames ?w1 ''normal'' [])"
    then have "map detected_at (fst (detect_frames world0 ''normal'' []))
               = map detected_at (fst (detect_frames ?w1 ''normal'' []))" by simp
    then show False unfolding 1 2 by simp
  qed
  have 4: "actors (fst (snd (InfluenceGraph_identify_masks world0 InfluenceGraph_init ''expert''))) \<noteq> []"
    by (simp add: InfluenceGraph_identify_masks_def MASK_SIGNALS_def lower_def lower_char_def
          Let_def split_beta add_actor_def InfluenceGraph_init_def)
  have 5: "fst (snd (InfluenceGraph_identify_masks world0 InfluenceGraph_init ''expert''))
     \<noteq> InfluenceGraph_init"
    using 4 by (auto simp: InfluenceGraph_init_def)
  show ?thesis using 3 5 by blast
qed


end
